theory Spec2Isabelle
  imports Main
begin

section \<open>Python values\<close>

text \<open>
  The records of the repository are Python dictionaries with string keys. A value is
  \<open>None\<close>, an integer, a string, a list or a dictionary; a dictionary is an association
  list in insertion order with distinct keys. A string is a list of code points below
  256. Floats, booleans, tuples and sets do not occur in the records the modelled
  operations build, and the value type leaves them out.
\<close>

datatype pyval =
    PNone
  | PInt int
  | PStr string
  | PList "pyval list"
  | PDict "(string \<times> pyval) list"

type_synonym pydict = "(string \<times> pyval) list"

text \<open>
  The exceptions the modelled code can raise. \<open>IntegrityError\<close> is
  \<open>sqlite3.IntegrityError\<close>; \<open>InterfaceError\<close> and \<open>OverflowError\<close> are what
  binding a list, a dictionary or an integer outside 64 bits as an SQL parameter raises.
\<close>

datatype py_error =
    KeyError
  | TypeError
  | IndexError
  | AttributeError
  | IntegrityError
  | InterfaceError
  | OverflowError

subsection \<open>Dictionaries\<close>

definition dict_get :: "pydict \<Rightarrow> string \<Rightarrow> pyval option" where
  "dict_get d k = map_of d k"

text \<open>\<open>d.get(k, default)\<close>\<close>

definition dict_getd :: "pydict \<Rightarrow> string \<Rightarrow> pyval \<Rightarrow> pyval" where
  "dict_getd d k dflt = (case map_of d k of None \<Rightarrow> dflt | Some v \<Rightarrow> v)"

text \<open>\<open>d[k]\<close>, which raises \<open>KeyError\<close> on a missing key\<close>

definition dict_item :: "pydict \<Rightarrow> string \<Rightarrow> py_error + pyval" where
  "dict_item d k = (case map_of d k of None \<Rightarrow> Inl KeyError | Some v \<Rightarrow> Inr v)"

text \<open>\<open>d[k] = v\<close>: an existing key keeps its position, a new key goes last\<close>

fun dict_set :: "pydict \<Rightarrow> string \<Rightarrow> pyval \<Rightarrow> pydict" where
  "dict_set [] k v = [(k, v)]"
| "dict_set ((k', v') # d) k v =
     (if k' = k then (k, v) # d else (k', v') # dict_set d k v)"

text \<open>\<open>d.pop(k)\<close> on a key that is present: the dictionary that remains\<close>

definition dict_pop :: "pydict \<Rightarrow> string \<Rightarrow> pydict" where
  "dict_pop d k = filter (\<lambda>kv. fst kv \<noteq> k) d"

definition dict_keys :: "pydict \<Rightarrow> string list" where
  "dict_keys d = map fst d"

subsection \<open>Strings\<close>

definition sq :: string where "sq = [CHR 0x27]"
definition dq :: string where "dq = [CHR 0x22]"
definition bsl :: string where "bsl = [CHR 0x5C]"
definition nl :: string where "nl = [CHR 0x0A]"

text \<open>\<open>sep.join(xs)\<close> on a list of strings\<close>

fun join :: "string \<Rightarrow> string list \<Rightarrow> string" where
  "join sep [] = []"
| "join sep [x] = x"
| "join sep (x # y # ys) = x @ sep @ join sep (y # ys)"

text \<open>\<open>sub in s\<close> on strings: \<open>sub\<close> occurs in \<open>s\<close> as a contiguous substring\<close>

fun contains :: "string \<Rightarrow> string \<Rightarrow> bool" where
  "contains [] sub = (sub = [])"
| "contains (c # cs) sub = (take (length sub) (c # cs) = sub \<or> contains cs sub)"

text \<open>\<open>str.lower()\<close> on code points below 256\<close>

definition lower_char :: "char \<Rightarrow> char" where
  "lower_char c =
     (let n = (of_char c :: nat)
      in if (65 \<le> n \<and> n \<le> 90) \<or> (192 \<le> n \<and> n \<le> 222 \<and> n \<noteq> 215)
         then char_of (n + 32) else c)"

definition lower :: "string \<Rightarrow> string" where
  "lower s = map lower_char s"

text \<open>Decimal digits of a natural number, and \<open>str\<close> of an integer\<close>

fun dec_nat :: "nat \<Rightarrow> string" where
  "dec_nat n =
     (if n < 10 then [char_of (48 + n)]
      else dec_nat (n div 10) @ [char_of (48 + n mod 10)])"

declare dec_nat.simps [simp del]

definition str_int :: "int \<Rightarrow> string" where
  "str_int i = (if i < 0 then CHR ''-'' # dec_nat (nat (- i)) else dec_nat (nat i))"

definition hex_digit :: "nat \<Rightarrow> char" where
  "hex_digit n = (if n < 10 then char_of (48 + n) else char_of (87 + n))"

definition hex2 :: "char \<Rightarrow> string" where
  "hex2 c = (let n = (of_char c :: nat) in [hex_digit (n div 16), hex_digit (n mod 16)])"

text \<open>
  \<open>repr\<close> of a string: single quotes, unless the string holds a single quote and no
  double quote; the quote and the backslash are escaped, as are the characters that
  are not printable.
\<close>

definition repr_char :: "char \<Rightarrow> char \<Rightarrow> string" where
  "repr_char q c =
     (let n = (of_char c :: nat)
      in if c = q \<or> c = CHR 0x5C then [CHR 0x5C, c]
         else if n = 9 then bsl @ ''t''
         else if n = 10 then bsl @ ''n''
         else if n = 13 then bsl @ ''r''
         else if n < 32 \<or> n = 127 then bsl @ ''x'' @ hex2 c
         else if n < 127 then [c]
         else if 161 \<le> n \<and> n \<noteq> 173 then [c]
         else bsl @ ''x'' @ hex2 c)"

definition repr_str :: "string \<Rightarrow> string" where
  "repr_str s =
     (let q = (if CHR 0x27 \<in> set s \<and> CHR 0x22 \<notin> set s then CHR 0x22 else CHR 0x27)
      in q # concat (map (repr_char q) s) @ [q])"

fun py_repr :: "pyval \<Rightarrow> string" where
  "py_repr PNone = ''None''"
| "py_repr (PInt i) = str_int i"
| "py_repr (PStr s) = repr_str s"
| "py_repr (PList vs) = ''['' @ join '', '' (map py_repr vs) @ '']''"
| "py_repr (PDict kvs) =
     ''{'' @ join '', '' (map (\<lambda>kv. repr_str (fst kv) @ '': '' @ py_repr (snd kv)) kvs) @ ''}''"

text \<open>\<open>str(v)\<close>, which is what an f-string writes for \<open>{v}\<close>\<close>

definition py_str :: "pyval \<Rightarrow> string" where
  "py_str v = (case v of PStr s \<Rightarrow> s | _ \<Rightarrow> py_repr v)"

text \<open>
  \<open>json.dumps\<close> with its defaults: every character outside the printable ASCII range,
  the double quote and the backslash are escaped.
\<close>

definition json_char :: "char \<Rightarrow> string" where
  "json_char c =
     (let n = (of_char c :: nat)
      in if n = 34 then bsl @ dq
         else if n = 92 then bsl @ bsl
         else if n = 10 then bsl @ ''n''
         else if n = 13 then bsl @ ''r''
         else if n = 9 then bsl @ ''t''
         else if n = 8 then bsl @ ''b''
         else if n = 12 then bsl @ ''f''
         else if n < 32 \<or> 126 < n then bsl @ ''u00'' @ hex2 c
         else [c])"

definition json_str :: "string \<Rightarrow> string" where
  "json_str s = dq @ concat (map json_char s) @ dq"

fun json_dumps :: "pyval \<Rightarrow> string" where
  "json_dumps PNone = ''null''"
| "json_dumps (PInt i) = str_int i"
| "json_dumps (PStr s) = json_str s"
| "json_dumps (PList vs) = ''['' @ join '', '' (map json_dumps vs) @ '']''"
| "json_dumps (PDict kvs) =
     ''{'' @ join '', '' (map (\<lambda>kv. json_str (fst kv) @ '': '' @ json_dumps (snd kv)) kvs) @ ''}''"

text \<open>Truth value of a Python value, as \<open>if v:\<close> tests it\<close>

definition truthy :: "pyval \<Rightarrow> bool" where
  "truthy v =
     (case v of PNone \<Rightarrow> False | PInt i \<Rightarrow> i \<noteq> 0 | PStr s \<Rightarrow> s \<noteq> []
      | PList xs \<Rightarrow> xs \<noteq> [] | PDict d \<Rightarrow> d \<noteq> [])"

section \<open>The store (\<open>database.py\<close>)\<close>

text \<open>
  The five tables of \<open>_create_tables\<close>, each a list of rows in \<open>rowid\<close> order, with the
  \<open>AUTOINCREMENT\<close> counter of every table the modelled operations insert into. A
  column holds the value SQLite stores: \<open>NULL\<close> is \<open>PNone\<close>, and a column of \<open>TEXT\<close>
  affinity holds an integer parameter as its decimal text. The JSON text of the three
  document columns of \<open>paper_analysis\<close> is held as the value it encodes: on the value
  type above \<open>json.loads (json.dumps v) = v\<close>, so \<open>get_paper_analysis\<close> reads back the
  value \<open>save_paper_analysis\<close> serialised.
\<close>

record user_row =
  u_id :: int
  u_username :: string
  u_email :: string
  u_password_hash :: string
  u_join_date :: string
  u_last_login :: pyval
  u_preferences :: pyval

record paper_row =
  p_id :: int
  p_paper_id :: pyval
  p_title :: pyval
  p_authors :: pyval
  p_year :: pyval
  p_source :: pyval
  p_abstract :: pyval
  p_citation_count :: pyval
  p_url :: pyval
  p_metadata :: pyval
  p_date_added :: pyval

record user_paper_row =
  up_id :: int
  up_user_id :: int
  up_paper_id :: int
  up_date_saved :: string
  up_notes :: pyval

record history_row =
  h_id :: int
  h_user_id :: int
  h_activity_type :: string
  h_title :: string
  h_description :: string
  h_date :: string

record analysis_row =
  a_id :: int
  a_paper_id :: int
  a_summary :: pyval
  a_key_findings :: pyval
  a_methodology :: pyval
  a_implications :: pyval
  a_date_analyzed :: string

record database =
  users :: "user_row list"
  papers :: "paper_row list"
  papers_seq :: int
  user_papers :: "user_paper_row list"
  user_papers_seq :: int
  research_history :: "history_row list"
  research_history_seq :: int
  paper_analysis :: "analysis_row list"
  paper_analysis_seq :: int

definition empty_database :: database where
  "empty_database =
     \<lparr>users = [], papers = [], papers_seq = 0, user_papers = [], user_papers_seq = 0,
      research_history = [], research_history_seq = 0, paper_analysis = [],
      paper_analysis_seq = 0\<rparr>"

subsection \<open>SQL parameters and row ids\<close>

text \<open>
  Binding a parameter: \<open>None\<close>, a string and an integer of 64 bits are accepted; a list
  or a dictionary is not a supported type, and a larger integer overflows. Neither
  error is an \<open>IntegrityError\<close>.
\<close>

definition sql_bind :: "pyval \<Rightarrow> py_error + pyval" where
  "sql_bind v =
     (case v of
        PList _ \<Rightarrow> Inl InterfaceError
      | PDict _ \<Rightarrow> Inl InterfaceError
      | PInt i \<Rightarrow>
          if - (2 ^ 63) \<le> i \<and> i < 2 ^ 63 then Inr (PInt i) else Inl OverflowError
      | _ \<Rightarrow> Inr v)"

fun bind_all :: "pyval list \<Rightarrow> py_error + pyval list" where
  "bind_all [] = Inr []"
| "bind_all (v # vs) =
     (case sql_bind v of
        Inl e \<Rightarrow> Inl e
      | Inr b \<Rightarrow> (case bind_all vs of Inl e \<Rightarrow> Inl e | Inr bs \<Rightarrow> Inr (b # bs)))"

text \<open>\<open>TEXT\<close> affinity: an integer is stored, and compared, as its decimal text.\<close>

definition sql_text :: "pyval \<Rightarrow> pyval" where
  "sql_text v = (case v of PInt i \<Rightarrow> PStr (str_int i) | _ \<Rightarrow> v)"

text \<open>
  The \<open>rowid\<close> an \<open>AUTOINCREMENT\<close> table gives a new row: one more than the largest of
  the table's counter and the ids in the table.
\<close>

definition next_rowid :: "int \<Rightarrow> int list \<Rightarrow> int" where
  "next_rowid seq ids = fold max ids seq + 1"

subsection \<open>\<open>add_paper\<close>\<close>

definition core_fields :: "string list" where
  "core_fields =
     [''paper_id'', ''title'', ''authors'', ''year'', ''source'', ''abstract'',
      ''citation_count'', ''url'']"

text \<open>\<open>v[:n]\<close>: a string and a list can be sliced, nothing else in the value type can.\<close>

definition slice_to :: "nat \<Rightarrow> pyval \<Rightarrow> py_error + pyval" where
  "slice_to n v =
     (case v of
        PStr s \<Rightarrow> Inr (PStr (take n s))
      | PList xs \<Rightarrow> Inr (PList (take n xs))
      | _ \<Rightarrow> Inl TypeError)"

text \<open>
  Lines 179-180: a record without \<open>paper_id\<close> gets the key
  \<open>f"{paper_data['source']}_{paper_data['title'][:50]}"\<close>.
\<close>

definition set_paper_id :: "pydict \<Rightarrow> py_error + pydict" where
  "set_paper_id d =
     (if ''paper_id'' \<in> set (dict_keys d) then Inr d
      else
        (case dict_item d ''source'' of
           Inl e \<Rightarrow> Inl e
         | Inr src \<Rightarrow>
             (case dict_item d ''title'' of
                Inl e \<Rightarrow> Inl e
              | Inr ttl \<Rightarrow>
                  (case slice_to 50 ttl of
                     Inl e \<Rightarrow> Inl e
                   | Inr t50 \<Rightarrow>
                       Inr (dict_set d ''paper_id''
                              (PStr (py_str src @ ''_'' @ py_str t50)))))))"

text \<open>Lines 183-184: an authors list becomes its JSON text.\<close>

definition dump_authors :: "pydict \<Rightarrow> pydict" where
  "dump_authors d =
     (case dict_get d ''authors'' of
        Some (PList xs) \<Rightarrow> dict_set d ''authors'' (PStr (json_dumps (PList xs)))
      | _ \<Rightarrow> d)"

text \<open>
  Lines 187-190, the loop over a snapshot of the record's entries: every entry whose
  key is not a core field is popped from the record and put into \<open>metadata\<close>.
\<close>

fun extract_metadata :: "pydict \<Rightarrow> pydict \<Rightarrow> pydict \<Rightarrow> pydict \<times> pydict" where
  "extract_metadata [] d m = (d, m)"
| "extract_metadata (kv # kvs) d m =
     (if fst kv \<in> set core_fields then extract_metadata kvs d m
      else extract_metadata kvs (dict_pop d (fst kv)) (dict_set m (fst kv) (snd kv)))"

text \<open>Lines 179-193: what \<open>add_paper\<close> does to the caller's record before the insert.\<close>

definition prepare_paper :: "string \<Rightarrow> pydict \<Rightarrow> py_error + pydict" where
  "prepare_paper now paper_data =
     (case set_paper_id paper_data of
        Inl e \<Rightarrow> Inl e
      | Inr d1 \<Rightarrow>
          (let d2 = dump_authors d1;
               dm = extract_metadata d2 d2 [];
               d3 = dict_set (fst dm) ''metadata'' (PStr (json_dumps (PDict (snd dm))))
           in Inr (dict_set d3 ''date_added'' (PStr now))))"

text \<open>
  Lines 201-212, the parameter tuple of the \<open>INSERT\<close>, as a row whose id is not yet
  given.
\<close>

definition paper_params :: "pydict \<Rightarrow> py_error + paper_row" where
  "paper_params d =
     (case dict_item d ''paper_id'' of
        Inl e \<Rightarrow> Inl e
      | Inr pid \<Rightarrow>
          (case dict_item d ''title'' of
             Inl e \<Rightarrow> Inl e
           | Inr ttl \<Rightarrow>
               (case dict_item d ''authors'' of
                  Inl e \<Rightarrow> Inl e
                | Inr au \<Rightarrow>
                    (case dict_item d ''metadata'' of
                       Inl e \<Rightarrow> Inl e
                     | Inr md \<Rightarrow>
                         (case dict_item d ''date_added'' of
                            Inl e \<Rightarrow> Inl e
                          | Inr da \<Rightarrow>
                              Inr \<lparr>p_id = 0, p_paper_id = pid, p_title = ttl,
                                   p_authors = au,
                                   p_year = dict_getd d ''year'' (PStr []),
                                   p_source = dict_getd d ''source'' (PStr []),
                                   p_abstract = dict_getd d ''abstract'' (PStr []),
                                   p_citation_count = dict_getd d ''citation_count'' (PInt 0),
                                   p_url = dict_getd d ''url'' (PStr []),
                                   p_metadata = md, p_date_added = da\<rparr>)))))"

definition paper_param_list :: "paper_row \<Rightarrow> pyval list" where
  "paper_param_list r =
     [p_paper_id r, p_title r, p_authors r, p_year r, p_source r, p_abstract r,
      p_citation_count r, p_url r, p_metadata r, p_date_added r]"

text \<open>The row as the table stores it: \<open>TEXT\<close> affinity on the text columns.\<close>

definition stored_paper :: "int \<Rightarrow> paper_row \<Rightarrow> paper_row" where
  "stored_paper i r =
     \<lparr>p_id = i, p_paper_id = sql_text (p_paper_id r), p_title = sql_text (p_title r),
      p_authors = sql_text (p_authors r), p_year = sql_text (p_year r),
      p_source = sql_text (p_source r), p_abstract = sql_text (p_abstract r),
      p_citation_count = p_citation_count r, p_url = sql_text (p_url r),
      p_metadata = sql_text (p_metadata r), p_date_added = sql_text (p_date_added r)\<rparr>"

text \<open>
  The \<open>INSERT\<close> violates a constraint of \<open>papers\<close> when a \<open>NOT NULL\<close> column gets
  \<open>NULL\<close> or the \<open>UNIQUE\<close> key is already there.
\<close>

definition papers_violation :: "database \<Rightarrow> paper_row \<Rightarrow> bool" where
  "papers_violation db r =
     (p_paper_id r = PNone \<or> p_title r = PNone \<or> p_authors r = PNone \<or>
      p_date_added r = PNone \<or>
      sql_text (p_paper_id r) \<in> set (map p_paper_id (papers db)))"

text \<open>\<open>SELECT id FROM papers WHERE paper_id = ?\<close>, first row; \<open>NULL\<close> equals nothing.\<close>

definition select_paper_id :: "database \<Rightarrow> pyval \<Rightarrow> int option" where
  "select_paper_id db key =
     (if key = PNone then None
      else map_option p_id (find (\<lambda>row. p_paper_id row = sql_text key) (papers db)))"

text \<open>Lines 195-221: the insert, and the lookup when it raises \<open>IntegrityError\<close>.\<close>

definition insert_paper :: "database \<Rightarrow> pydict \<Rightarrow> (py_error + int option) \<times> database" where
  "insert_paper db d =
     (case paper_params d of
        Inl e \<Rightarrow> (Inl e, db)
      | Inr r \<Rightarrow>
          (case bind_all (paper_param_list r) of
             Inl e \<Rightarrow> (Inl e, db)
           | Inr _ \<Rightarrow>
               if papers_violation db r then (Inr (select_paper_id db (p_paper_id r)), db)
               else
                 (let i = next_rowid (papers_seq db) (map p_id (papers db))
                  in (Inr (Some i),
                      db\<lparr>papers := papers db @ [stored_paper i r], papers_seq := i\<rparr>))))"

text \<open>
  \<open>add_paper\<close> returns its result (an exception, \<open>None\<close> or a row id), the caller's
  record as the call leaves it, and the store. \<open>now\<close> is what \<open>datetime.now()\<close> gives,
  formatted.
\<close>

definition add_paper ::
  "database \<Rightarrow> string \<Rightarrow> pydict \<Rightarrow> (py_error + int option) \<times> pydict \<times> database" where
  "add_paper db now paper_data =
     (case prepare_paper now paper_data of
        Inl e \<Rightarrow> (Inl e, paper_data, db)
      | Inr d \<Rightarrow> (fst (insert_paper db d), d, snd (insert_paper db d)))"

subsection \<open>\<open>save_paper_for_user\<close>\<close>

text \<open>
  The \<open>INSERT\<close> into \<open>user_papers\<close> violates a constraint when the user id or the paper
  id is not the id of a row of the referenced table (foreign keys are switched on by
  \<open>_get_connection\<close>), or when the pair is already there.
\<close>

definition user_papers_violation :: "database \<Rightarrow> int \<Rightarrow> int \<Rightarrow> bool" where
  "user_papers_violation db user_id paper_id =
     (user_id \<notin> set (map u_id (users db)) \<or>
      paper_id \<notin> set (map p_id (papers db)) \<or>
      (user_id, paper_id) \<in> set (map (\<lambda>r. (up_user_id r, up_paper_id r)) (user_papers db)))"

text \<open>
  \<open>now_paper\<close> is the clock reading of \<open>add_paper\<close>, \<open>now_saved\<close> the one of line 247.
  \<open>if not paper_id\<close> holds for \<open>None\<close> and for \<open>0\<close>.
\<close>

definition save_paper_for_user ::
  "database \<Rightarrow> string \<Rightarrow> string \<Rightarrow> int \<Rightarrow> pydict \<Rightarrow> (py_error + bool) \<times> pydict \<times> database" where
  "save_paper_for_user db now_paper now_saved user_id paper_data =
     (case add_paper db now_paper paper_data of
        (Inl e, d, db1) \<Rightarrow> (Inl e, d, db1)
      | (Inr None, d, db1) \<Rightarrow> (Inr False, d, db1)
      | (Inr (Some paper_id), d, db1) \<Rightarrow>
          if paper_id = 0 then (Inr False, d, db1)
          else
            (case sql_bind (PInt user_id) of
               Inl e \<Rightarrow> (Inl e, d, db1)
             | Inr _ \<Rightarrow>
                 if user_papers_violation db1 user_id paper_id then (Inr True, d, db1)
                 else
                   (let i = next_rowid (user_papers_seq db1) (map up_id (user_papers db1))
                    in (Inr True, d,
                        db1\<lparr>user_papers := user_papers db1 @
                               [\<lparr>up_id = i, up_user_id = user_id, up_paper_id = paper_id,
                                 up_date_saved = now_saved, up_notes = PNone\<rparr>],
                             user_papers_seq := i\<rparr>))))"

subsection \<open>\<open>add_history_item\<close>\<close>

text \<open>
  The insert is not guarded: a user id that is not in \<open>users\<close> raises
  \<open>IntegrityError\<close> to the caller.
\<close>

definition add_history_item ::
  "database \<Rightarrow> string \<Rightarrow> int \<Rightarrow> string \<Rightarrow> string \<Rightarrow> string \<Rightarrow> (py_error + bool) \<times> database" where
  "add_history_item db now user_id activity_type title description =
     (case sql_bind (PInt user_id) of
        Inl e \<Rightarrow> (Inl e, db)
      | Inr _ \<Rightarrow>
          if user_id \<notin> set (map u_id (users db)) then (Inl IntegrityError, db)
          else
            (let i = next_rowid (research_history_seq db) (map h_id (research_history db))
             in (Inr True,
                 db\<lparr>research_history := research_history db @
                        [\<lparr>h_id = i, h_user_id = user_id, h_activity_type = activity_type,
                          h_title = title, h_description = description, h_date = now\<rparr>],
                     research_history_seq := i\<rparr>)))"

subsection \<open>\<open>save_paper_analysis\<close> and \<open>get_paper_analysis\<close>\<close>

text \<open>
  \<open>paper_analysis\<close> declares \<open>paper_id INTEGER NOT NULL\<close> with a foreign key to
  \<open>papers\<close> and no \<open>UNIQUE\<close> constraint: the only violation an insert with an integer
  paper id can meet is the foreign key.
\<close>

definition analysis_violation :: "database \<Rightarrow> int \<Rightarrow> bool" where
  "analysis_violation db paper_id = (paper_id \<notin> set (map p_id (papers db)))"

text \<open>The \<open>UPDATE\<close> of lines 335-339, on every row of the paper.\<close>

definition update_analysis ::
  "int \<Rightarrow> pyval \<Rightarrow> pyval \<Rightarrow> pyval \<Rightarrow> pyval \<Rightarrow> string \<Rightarrow> analysis_row \<Rightarrow> analysis_row" where
  "update_analysis paper_id summary key_findings methodology implications now r =
     (if a_paper_id r = paper_id
      then r\<lparr>a_summary := sql_text summary, a_key_findings := key_findings,
             a_methodology := methodology, a_implications := implications,
             a_date_analyzed := now\<rparr>
      else r)"

definition save_paper_analysis ::
  "database \<Rightarrow> string \<Rightarrow> int \<Rightarrow> pydict \<Rightarrow> (py_error + bool) \<times> database" where
  "save_paper_analysis db now paper_id analysis_data =
     (let summary = dict_getd analysis_data ''summary'' (PStr []);
          key_findings = dict_getd analysis_data ''key_findings'' (PList []);
          methodology = dict_getd analysis_data ''methodology'' (PDict []);
          implications = dict_getd analysis_data ''implications'' (PDict [])
      in case bind_all [PInt paper_id, summary] of
           Inl e \<Rightarrow> (Inl e, db)
         | Inr _ \<Rightarrow>
             if analysis_violation db paper_id
             then (Inr (list_ex (\<lambda>r. a_paper_id r = paper_id) (paper_analysis db)),
                   db\<lparr>paper_analysis :=
                        map (update_analysis paper_id summary key_findings methodology
                               implications now) (paper_analysis db)\<rparr>)
             else
               (let i = next_rowid (paper_analysis_seq db) (map a_id (paper_analysis db))
                in (Inr True,
                    db\<lparr>paper_analysis := paper_analysis db @
                          [\<lparr>a_id = i, a_paper_id = paper_id, a_summary = sql_text summary,
                            a_key_findings = key_findings, a_methodology = methodology,
                            a_implications = implications, a_date_analyzed = now\<rparr>],
                        paper_analysis_seq := i\<rparr>)))"

text \<open>\<open>dict(row)\<close> of a \<open>paper_analysis\<close> row, the three document columns decoded.\<close>

definition analysis_dict :: "analysis_row \<Rightarrow> pydict" where
  "analysis_dict r =
     [(''id'', PInt (a_id r)), (''paper_id'', PInt (a_paper_id r)),
      (''summary'', a_summary r), (''key_findings'', a_key_findings r),
      (''methodology'', a_methodology r), (''implications'', a_implications r),
      (''date_analyzed'', PStr (a_date_analyzed r))]"

definition get_paper_analysis :: "database \<Rightarrow> int \<Rightarrow> py_error + pydict option" where
  "get_paper_analysis db paper_id =
     (case sql_bind (PInt paper_id) of
        Inl e \<Rightarrow> Inl e
      | Inr _ \<Rightarrow>
          Inr (map_option analysis_dict
                 (find (\<lambda>r. a_paper_id r = paper_id) (paper_analysis db))))"

subsection \<open>Consistent stores\<close>

text \<open>
  What the schema's \<open>UNIQUE\<close>, \<open>PRIMARY KEY\<close> and foreign-key constraints keep true of
  \<open>papers\<close> and \<open>user_papers\<close> in every store the operations can reach.
\<close>

definition db_inv :: "database \<Rightarrow> bool" where
  "db_inv db =
     (distinct (map p_paper_id (papers db)) \<and> distinct (map p_id (papers db)) \<and>
      list_all (\<lambda>r. 0 < p_id r \<and> p_paper_id r \<noteq> PNone) (papers db) \<and>
      0 \<le> papers_seq db \<and>
      distinct (map (\<lambda>r. (up_user_id r, up_paper_id r)) (user_papers db)) \<and>
      list_all (\<lambda>r. up_user_id r \<in> set (map u_id (users db))) (user_papers db))"

subsection \<open>Example records\<close>

definition example_paper :: pydict where
  "example_paper =
     [(''title'', PStr ''Attention Is All You Need''),
      (''authors'', PList [PStr ''Ashish Vaswani'', PStr ''Noam Shazeer'']),
      (''year'', PInt 2017), (''source'', PStr ''Semantic Scholar'')]"

definition example_store :: database where
  "example_store =
     snd (snd (add_paper empty_database ''2024-01-01 10:00:00'' example_paper))"

definition example_analysis :: pydict where
  "example_analysis =
     [(''summary'', PStr ''A summary''), (''key_findings'', PList []),
      (''methodology'', PDict []), (''implications'', PDict [])]"

text \<open>The number of \<open>paper_analysis\<close> rows of a paper.\<close>

definition analysis_count :: "database \<Rightarrow> int \<Rightarrow> nat" where
  "analysis_count db paper_id =
     length (filter (\<lambda>r. a_paper_id r = paper_id) (paper_analysis db))"

section \<open>The analysis generator (\<open>paper_manager.py\<close>, \<open>analyze_paper\<close>)\<close>

subsection \<open>Operations on values\<close>

text \<open>
  \<open>sep.join(v)\<close>: a string is iterated by characters, a dictionary by keys, and a list
  must hold strings only; \<open>None\<close> and an integer are not iterable.
\<close>

fun all_strs :: "pyval list \<Rightarrow> string list option" where
  "all_strs [] = Some []"
| "all_strs (PStr s # vs) = map_option ((#) s) (all_strs vs)"
| "all_strs (_ # vs) = None"

definition py_join :: "string \<Rightarrow> pyval \<Rightarrow> py_error + string" where
  "py_join sep v =
     (case v of
        PStr s \<Rightarrow> Inr (join sep (map (\<lambda>c. [c]) s))
      | PList xs \<Rightarrow> (case all_strs xs of None \<Rightarrow> Inl TypeError | Some ss \<Rightarrow> Inr (join sep ss))
      | PDict d \<Rightarrow> Inr (join sep (map fst d))
      | _ \<Rightarrow> Inl TypeError)"

text \<open>\<open>v.lower()\<close>: only a string has the method.\<close>

definition py_lower :: "pyval \<Rightarrow> py_error + string" where
  "py_lower v = (case v of PStr s \<Rightarrow> Inr (lower s) | _ \<Rightarrow> Inl AttributeError)"

subsection \<open>The documents\<close>

definition error_analysis :: pydict where
  "error_analysis = [(''error'', PStr ''Failed to process paper for analysis'')]"

definition degraded_analysis :: pydict where
  "degraded_analysis =
     [(''summary'', PStr ''Unable to analyze paper due to an error.''),
      (''key_findings'', PList []),
      (''methodology'', PDict [(''description'', PStr ''Not available''), (''steps'', PList [])]),
      (''implications'',
       PDict [(''description'', PStr ''Not available''), (''research_gaps'', PList []),
              (''future_directions'', PList [])])]"

definition titled :: "string \<Rightarrow> string \<Rightarrow> pyval" where
  "titled t d = PDict [(''title'', PStr t), (''description'', PStr d)]"

definition synth_key_findings :: pyval where
  "synth_key_findings =
     PList
      [titled ''Novel methodology developed''
         ''The authors developed a new approach that improves upon existing methods by incorporating advanced techniques and algorithms.'',
       titled ''Significant performance improvements''
         ''Experimental results demonstrate substantial improvements over baseline methods, with up to 30% better performance on standard benchmarks.'',
       titled ''Important theoretical contributions''
         ''The paper makes notable theoretical contributions by extending existing frameworks and proposing new mathematical formulations.'']"

definition synth_methodology :: pyval where
  "synth_methodology =
     PDict
      [(''description'',
        PStr ''The research employs a multi-stage approach combining quantitative and qualitative methods to address the research questions.''),
       (''steps'',
        PList
         [titled ''Data collection and preprocessing''
            ''Comprehensive dataset compilation from multiple sources, followed by rigorous cleaning and normalization.'',
          titled ''Model development and implementation''
            ''Design and implementation of novel computational models tailored to the specific research problem.'',
          titled ''Experimental evaluation''
            ''Extensive evaluation using both established benchmarks and custom test scenarios to validate the approach.''])]"

definition synth_implications :: pyval where
  "synth_implications =
     PDict
      [(''description'',
        PStr ''This research has significant implications for both theory and practice in the field.''),
       (''research_gaps'',
        PList
         [PStr ''Limited evaluation in real-world settings'',
          PStr ''Computational efficiency challenges for large-scale applications'',
          PStr ''Need for more diverse datasets to ensure generalizability'']),
       (''future_directions'',
        PList
         [PStr ''Extending the approach to related problem domains'',
          PStr ''Incorporating additional data sources to enhance performance'',
          PStr ''Developing more efficient implementations for resource-constrained environments''])]"

text \<open>
  Lines 299-356. \<open>paper\<close> is the record as \<open>add_paper\<close> left it, so an authors list
  has become its JSON text, and \<open>authors[:3]\<close> are the first three characters of it.
\<close>

definition synthesize :: "pydict \<Rightarrow> py_error + pydict" where
  "synthesize paper =
     (case dict_item paper ''title'' of
        Inl e \<Rightarrow> Inl e
      | Inr title \<Rightarrow>
          (case slice_to 3 (dict_getd paper ''authors'' (PList [])) of
             Inl e \<Rightarrow> Inl e
           | Inr a3 \<Rightarrow>
               (case py_join '', '' a3 of
                  Inl e \<Rightarrow> Inl e
                | Inr names \<Rightarrow>
                    (case py_lower title of
                       Inl e \<Rightarrow> Inl e
                     | Inr lowered \<Rightarrow>
                         Inr [(''summary'',
                               PStr (''This paper by '' @ names @ '' ('' @
                                     py_str (dict_getd paper ''year'' (PStr [])) @
                                     '') explores '' @ lowered @ ''. '' @
                                     ''The research presents innovative approaches to understand and address challenges in this domain. '' @
                                     ''The work contributes significantly to the field by providing new methodologies and insights.'')),
                              (''key_findings'', synth_key_findings),
                              (''methodology'', synth_methodology),
                              (''implications'', synth_implications)]))))"

text \<open>
  The body of the \<open>try\<close> of \<open>analyze_paper\<close>. \<open>now_paper\<close> is the clock reading of
  \<open>add_paper\<close>, \<open>now_analysis\<close> the one of \<open>save_paper_analysis\<close>. The result of
  \<open>save_paper_analysis\<close> is not looked at; an exception of it is raised on.
\<close>

definition analyze_paper_body ::
  "database \<Rightarrow> string \<Rightarrow> string \<Rightarrow> pydict \<Rightarrow> (py_error + pydict) \<times> pydict \<times> database" where
  "analyze_paper_body db now_paper now_analysis paper =
     (case add_paper db now_paper paper of
        (Inl e, p1, db1) \<Rightarrow> (Inl e, p1, db1)
      | (Inr None, p1, db1) \<Rightarrow> (Inr error_analysis, p1, db1)
      | (Inr (Some paper_db_id), p1, db1) \<Rightarrow>
          if paper_db_id = 0 then (Inr error_analysis, p1, db1)
          else
            (case get_paper_analysis db1 paper_db_id of
               Inl e \<Rightarrow> (Inl e, p1, db1)
             | Inr existing \<Rightarrow>
                 if existing \<noteq> None \<and> existing \<noteq> Some []
                 then (Inr (case existing of Some a \<Rightarrow> a | None \<Rightarrow> []), p1, db1)
                 else
                   (case synthesize p1 of
                      Inl e \<Rightarrow> (Inl e, p1, db1)
                    | Inr analysis \<Rightarrow>
                        (case save_paper_analysis db1 now_analysis paper_db_id analysis of
                           (Inl e, db2) \<Rightarrow> (Inl e, p1, db2)
                         | (Inr ok, db2) \<Rightarrow> (Inr analysis, p1, db2)))))"

text \<open>\<open>analyze_paper\<close>: the \<open>except Exception\<close> turns every exception into the fixed document.\<close>

definition analyze_paper ::
  "database \<Rightarrow> string \<Rightarrow> string \<Rightarrow> pydict \<Rightarrow> pydict \<times> pydict \<times> database" where
  "analyze_paper db now_paper now_analysis paper =
     (case analyze_paper_body db now_paper now_analysis paper of
        (Inl e, p1, db1) \<Rightarrow> (degraded_analysis, p1, db1)
      | (Inr analysis, p1, db1) \<Rightarrow> (analysis, p1, db1))"

section \<open>The paper source adapter (\<open>paper_manager.py\<close>, \<open>fetch_research_papers\<close>)\<close>

subsection \<open>The three sources\<close>

text \<open>
  Each \<open>_fetch_from_*\<close> ignores its arguments and returns two freshly built sample
  records; building them cannot raise, so the \<open>except\<close> of each is never entered.
\<close>

definition fetch_from_semantic_scholar :: "string \<Rightarrow> int \<times> int \<Rightarrow> int \<Rightarrow> pydict list" where
  "fetch_from_semantic_scholar query year_range max_results =
     [[(''id'', PStr ''sem1''),
       (''title'', PStr ''Attention Is All You Need''),
       (''authors'', PList [PStr ''Ashish Vaswani'', PStr ''Noam Shazeer'', PStr ''Niki Parmar'']),
       (''year'', PInt 2017),
       (''abstract'', 
         PStr ''The dominant sequence transduction models are based on complex recurrent or convolutional neural networks that include an encoder and a decoder. The best performing models also connect the encoder and decoder through an attention mechanism. We propose a new simple network architecture, the Transformer, based solely on attention mechanisms, dispensing with recurrence and convolutions entirely.''),
       (''citation_count'', PInt 45000),
       (''source'', PStr ''Semantic Scholar''),
       (''url'', PStr ''https://api.semanticscholar.org/v1/paper/sem1'')],
      [(''id'', PStr ''sem2''),
       (''title'', 
         PStr ''BERT: Pre-training of Deep Bidirectional Transformers for Language Understanding''),
       (''authors'', PList [PStr ''Jacob Devlin'', PStr ''Ming-Wei Chang'', PStr ''Kenton Lee'', PStr ''Kristina Toutanova'']),
       (''year'', PInt 2018),
       (''abstract'', 
         PStr ''We introduce a new language representation model called BERT, which stands for Bidirectional Encoder Representations from Transformers. Unlike recent language representation models, BERT is designed to pre-train deep bidirectional representations from unlabeled text by jointly conditioning on both left and right context in all layers.''),
       (''citation_count'', PInt 35000),
       (''source'', PStr ''Semantic Scholar''),
       (''url'', PStr ''https://api.semanticscholar.org/v1/paper/sem2'')]]"

definition fetch_from_arxiv :: "string \<Rightarrow> int \<times> int \<Rightarrow> int \<Rightarrow> pydict list" where
  "fetch_from_arxiv query year_range max_results =
     [[(''id'', PStr ''arxiv1''),
       (''title'', PStr ''GPT-4 Technical Report''),
       (''authors'', PList [PStr ''OpenAI Team'']),
       (''year'', PInt 2023),
       (''abstract'', 
         PStr ''We report the development of GPT-4, a large-scale, multimodal model which can accept image and text inputs and produce text outputs. While less capable than humans in many real-world scenarios, GPT-4 exhibits human-level performance on various professional and academic benchmarks.''),
       (''citation_count'', PInt 500),
       (''source'', PStr ''arXiv''),
       (''url'', PStr ''https://arxiv.org/abs/arxiv1'')],
      [(''id'', PStr ''arxiv2''),
       (''title'', PStr ''Language Models are Few-Shot Learners''),
       (''authors'', PList [PStr ''Tom B. Brown'', PStr ''Benjamin Mann'', PStr ''Nick Ryder'']),
       (''year'', PInt 2020),
       (''abstract'', 
         PStr ''Recent work has demonstrated substantial gains on many NLP tasks and benchmarks by pre-training on a large corpus of text followed by fine-tuning on a specific task. We demonstrate that by scaling up language models, they become increasingly capable of performing tasks that they were not explicitly trained on.''),
       (''citation_count'', PInt 12000),
       (''source'', PStr ''arXiv''),
       (''url'', PStr ''https://arxiv.org/abs/arxiv2'')]]"

definition fetch_from_pubmed :: "string \<Rightarrow> int \<times> int \<Rightarrow> int \<Rightarrow> pydict list" where
  "fetch_from_pubmed query year_range max_results =
     [[(''id'', PStr ''pubmed1''),
       (''title'', PStr ''The role of AI in genomics and precision medicine''),
       (''authors'', PList [PStr ''Sarah Johnson'', PStr ''Michael Chen'']),
       (''year'', PInt 2022),
       (''abstract'', 
         PStr ''Artificial intelligence is transforming genomics and precision medicine by enabling more accurate analysis of complex genomic data. This review examines recent advances in AI-based genomic analysis and their implications for personalized healthcare.''),
       (''citation_count'', PInt 150),
       (''source'', PStr ''PubMed''),
       (''url'', PStr ''https://pubmed.ncbi.nlm.nih.gov/pubmed1'')],
      [(''id'', PStr ''pubmed2''),
       (''title'', PStr ''Neural basis of language comprehension''),
       (''authors'', PList [PStr ''David Miller'', PStr ''Jennifer Smith'']),
       (''year'', PInt 2021),
       (''abstract'', 
         PStr ''This fMRI study investigates the neural mechanisms underlying language comprehension in different contexts. Results indicate a distributed network of brain regions involved in semantic processing, with significant implications for understanding language disorders.''),
       (''citation_count'', PInt 85),
       (''source'', PStr ''PubMed''),
       (''url'', PStr ''https://pubmed.ncbi.nlm.nih.gov/pubmed2'')]]"
subsection \<open>The search\<close>

text \<open>
  The session state of the manager: the store, the \<open>paper_search_cache\<close> of
  \<open>st.session_state\<close> (absent and empty are the same to the code, which creates it
  when absent), and \<open>source_calls\<close>, which counts the calls of the three
  \<open>_fetch_from_*\<close> methods. The counter is not a variable of the source: it records
  the calls so that a search that queries no source can be told from one that does.
\<close>

record manager_state =
  ms_db :: database
  paper_search_cache :: "(string \<times> pydict list) list"
  source_calls :: nat

fun cache_set ::
  "(string \<times> pydict list) list \<Rightarrow> string \<Rightarrow> pydict list \<Rightarrow> (string \<times> pydict list) list" where
  "cache_set [] k v = [(k, v)]"
| "cache_set (kv # c) k v = (if fst kv = k then (k, v) # c else kv # cache_set c k v)"

text \<open>Lines 49-54.\<close>

definition search_key :: "string \<Rightarrow> string option \<Rightarrow> int \<times> int \<Rightarrow> string \<Rightarrow> string" where
  "search_key query source year_range sort_by =
     query @ ''_'' @
     (case source of
        None \<Rightarrow> ''all''
      | Some s \<Rightarrow> map (\<lambda>c. if c = CHR '' '' then CHR ''_'' else c) (lower s)) @
     ''_'' @ str_int (fst year_range) @ ''_'' @ str_int (snd year_range) @ ''_'' @ sort_by"

text \<open>Lines 64-75: a source name that matches no branch leaves the list empty.\<close>

definition sources_to_query :: "string option \<Rightarrow> string list" where
  "sources_to_query source =
     (case source of
        None \<Rightarrow> [''semantic_scholar'', ''arxiv'', ''pubmed'']
      | Some s \<Rightarrow>
          if lower s = ''semantic scholar'' then [''semantic_scholar'']
          else if lower s = ''arxiv'' then [''arxiv'']
          else if lower s = ''pubmed'' then [''pubmed'']
          else [])"

text \<open>Lines 78-88: the records of the sources queried, in this order.\<close>

definition query_sources :: "string list \<Rightarrow> string \<Rightarrow> int \<times> int \<Rightarrow> int \<Rightarrow> pydict list" where
  "query_sources srcs query year_range max_results =
     (if ''semantic_scholar'' \<in> set srcs
      then fetch_from_semantic_scholar query year_range max_results else []) @
     (if ''arxiv'' \<in> set srcs then fetch_from_arxiv query year_range max_results else []) @
     (if ''pubmed'' \<in> set srcs then fetch_from_pubmed query year_range max_results else [])"

definition sources_called :: "string list \<Rightarrow> nat" where
  "sources_called srcs =
     length (filter (\<lambda>s. s \<in> set srcs) [''semantic_scholar'', ''arxiv'', ''pubmed''])"

text \<open>
  Lines 91-92, the loop: every record goes through \<open>add_paper\<close>, which changes the
  record in place; \<open>nows i\<close> is the clock reading of the call for the \<open>i\<close>-th record.
  An exception of \<open>add_paper\<close> ends the search.
\<close>

fun add_papers ::
  "database \<Rightarrow> (nat \<Rightarrow> string) \<Rightarrow> nat \<Rightarrow> pydict list \<Rightarrow> (py_error + pydict list) \<times> database" where
  "add_papers db nows i [] = (Inr [], db)"
| "add_papers db nows i (p # ps) =
     (case add_paper db (nows i) p of
        (Inl e, p1, db1) \<Rightarrow> (Inl e, db1)
      | (Inr r, p1, db1) \<Rightarrow>
          (case add_papers db1 nows (Suc i) ps of
             (Inl e, db2) \<Rightarrow> (Inl e, db2)
           | (Inr ps1, db2) \<Rightarrow> (Inr (p1 # ps1), db2)))"

text \<open>
  Lines 99-102: \<open>papers.sort(key=lambda x: x.get(field, 0), reverse=True)\<close>, a stable
  sort in descending order of the key. The records of the three sources hold integers
  under \<open>year\<close> and \<open>citation_count\<close>; a key that is not an integer is reported as
  \<open>TypeError\<close> (Python orders strings among themselves as well, which no source
  produces).
\<close>

fun int_keys :: "string \<Rightarrow> pydict list \<Rightarrow> int list option" where
  "int_keys field [] = Some []"
| "int_keys field (p # ps) =
     (case dict_getd p field (PInt 0) of
        PInt i \<Rightarrow> map_option ((#) i) (int_keys field ps)
      | _ \<Rightarrow> None)"

definition sort_desc :: "string \<Rightarrow> pydict list \<Rightarrow> py_error + pydict list" where
  "sort_desc field ps =
     (case int_keys field ps of
        None \<Rightarrow> Inl TypeError
      | Some ks \<Rightarrow> Inr (map snd (sort_key (\<lambda>kp. - fst kp) (zip ks ps))))"

definition sort_papers :: "string \<Rightarrow> pydict list \<Rightarrow> py_error + pydict list" where
  "sort_papers sort_by ps =
     (if sort_by = ''date'' then sort_desc ''year'' ps
      else if sort_by = ''citation_count'' then sort_desc ''citation_count'' ps
      else Inr ps)"

text \<open>\<open>xs[:n]\<close>: a negative \<open>n\<close> drops the last \<open>- n\<close> elements.\<close>

definition py_take :: "int \<Rightarrow> 'a list \<Rightarrow> 'a list" where
  "py_take n xs = (if 0 \<le> n then take (nat n) xs else take (length xs - nat (- n)) xs)"

text \<open>
  \<open>fetch_research_papers\<close>. The list stored in the cache at line 95 is the list object
  that line 100 or 102 then sorts in place, so the cache holds the sorted list; the
  slice of line 105 is a new list.
\<close>

definition fetch_research_papers ::
  "manager_state \<Rightarrow> (nat \<Rightarrow> string) \<Rightarrow> string \<Rightarrow> string option \<Rightarrow> int \<times> int \<Rightarrow> string \<Rightarrow> int \<Rightarrow>
     (py_error + pydict list) \<times> manager_state" where
  "fetch_research_papers st nows query source year_range sort_by max_results =
     (let key = search_key query source year_range sort_by
      in case map_of (paper_search_cache st) key of
           Some cached \<Rightarrow> (Inr cached, st)
         | None \<Rightarrow>
             (let srcs = sources_to_query source;
                  st1 = st\<lparr>source_calls := source_calls st + sources_called srcs\<rparr>
              in case add_papers (ms_db st) nows 0
                        (query_sources srcs query year_range max_results) of
                   (Inl e, db1) \<Rightarrow> (Inl e, st1\<lparr>ms_db := db1\<rparr>)
                 | (Inr fetched, db1) \<Rightarrow>
                     (case sort_papers sort_by fetched of
                        Inl e \<Rightarrow>
                          (Inl e,
                           st1\<lparr>ms_db := db1,
                               paper_search_cache :=
                                 cache_set (paper_search_cache st) key fetched\<rparr>)
                      | Inr ordered \<Rightarrow>
                          (Inr (py_take max_results ordered),
                           st1\<lparr>ms_db := db1,
                               paper_search_cache :=
                                 cache_set (paper_search_cache st) key ordered\<rparr>))))"

definition empty_manager :: manager_state where
  "empty_manager = \<lparr>ms_db = empty_database, paper_search_cache = [], source_calls = 0\<rparr>"

section \<open>The chat responder (\<open>chat_bot.py\<close>, \<open>generate_response\<close>)\<close>

subsection \<open>Operations on values\<close>

text \<open>\<open>v.get(k, default)\<close>: only a dictionary has the method.\<close>

definition ctx_get :: "pyval \<Rightarrow> string \<Rightarrow> pyval \<Rightarrow> py_error + pyval" where
  "ctx_get v k dflt = (case v of PDict d \<Rightarrow> Inr (dict_getd d k dflt) | _ \<Rightarrow> Inl AttributeError)"

text \<open>\<open>v[k]\<close> with a string \<open>k\<close>: a missing key of a dictionary, a type error elsewhere.\<close>

definition py_subscript :: "pyval \<Rightarrow> string \<Rightarrow> py_error + pyval" where
  "py_subscript v k = (case v of PDict d \<Rightarrow> dict_item d k | _ \<Rightarrow> Inl TypeError)"

text \<open>What a \<open>for\<close> loop over \<open>v\<close> visits.\<close>

definition py_iter :: "pyval \<Rightarrow> py_error + pyval list" where
  "py_iter v =
     (case v of
        PList xs \<Rightarrow> Inr xs
      | PStr s \<Rightarrow> Inr (map (\<lambda>c. PStr [c]) s)
      | PDict d \<Rightarrow> Inr (map (\<lambda>kv. PStr (fst kv)) d)
      | _ \<Rightarrow> Inl TypeError)"

text \<open>\<open>v + "\n\n"\<close>: only a string can be added to a string.\<close>

definition py_concat_str :: "pyval \<Rightarrow> string \<Rightarrow> py_error + string" where
  "py_concat_str v s = (case v of PStr t \<Rightarrow> Inr (t @ s) | _ \<Rightarrow> Inl TypeError)"

text \<open>\<open>xs[1]\<close> on the context list\<close>

definition second :: "pyval list \<Rightarrow> py_error + pyval" where
  "second xs = (case xs of _ # y # _ \<Rightarrow> Inr y | _ \<Rightarrow> Inl IndexError)"

subsection \<open>The session\<close>

record chat_state =
  research_context :: "pyval list"
  chat_history :: "pydict list"
  chat_db :: database

definition turn :: "string \<Rightarrow> string \<Rightarrow> string \<Rightarrow> pydict" where
  "turn role content timestamp =
     [(''role'', PStr role), (''content'', PStr content), (''timestamp'', PStr timestamp)]"

definition apology :: string where
  "apology = ''I apologize, but I encountered an error while processing your question. Please try asking in a different way or search for specific papers to provide more context.''"

subsection \<open>The branches\<close>

text \<open>Lines 70-81: the history entry, written when \<open>user_id\<close> is neither \<open>None\<close> nor \<open>0\<close>.\<close>

definition log_chat ::
  "database \<Rightarrow> string \<Rightarrow> pyval list \<Rightarrow> string \<Rightarrow> int option \<Rightarrow> (py_error + unit) \<times> database" where
  "log_chat db now ctx user_query user_id =
     (case user_id of
        None \<Rightarrow> (Inr (), db)
      | Some u \<Rightarrow>
          if u = 0 then (Inr (), db)
          else
            (case (case ctx of
                     [] \<Rightarrow> Inr PNone
                   | paper # _ \<Rightarrow> ctx_get paper ''title'' (PStr ''Unknown paper'')) of
               Inl e \<Rightarrow> (Inl e, db)
             | Inr paper_context \<Rightarrow>
                 (case add_history_item db now u ''chat''
                         (''Chat: '' @ take 50 user_query @ ''...'')
                         (''Question about '' @
                          (if truthy paper_context then py_str paper_context
                           else ''research'')) of
                    (Inl e, db1) \<Rightarrow> (Inl e, db1)
                  | (Inr ok, db1) \<Rightarrow> (Inr (), db1))))"

text \<open>Lines 87-99\<close>

definition summary_response :: "pyval list \<Rightarrow> py_error + string" where
  "summary_response ctx =
     (case ctx of
        [] \<Rightarrow>
          Inr (''I don'' @ sq @ ''t currently have a specific paper in context to summarize. '' @
               ''Please search for and select a paper first, or ask a more general research question.'')
      | paper # _ \<Rightarrow>
          (case ctx_get paper ''title'' (PStr ''the selected paper'') of
             Inl e \<Rightarrow> Inl e
           | Inr title \<Rightarrow>
               (case ctx_get paper ''authors'' (PList [PStr ''the authors'']) of
                  Inl e \<Rightarrow> Inl e
                | Inr authors \<Rightarrow>
                    (case py_join '', '' authors of
                       Inl e \<Rightarrow> Inl e
                     | Inr names \<Rightarrow>
                         (case ctx_get paper ''title'' (PStr ''the topic'') of
                            Inl e \<Rightarrow> Inl e
                          | Inr topic \<Rightarrow>
                              (case py_lower topic of
                                 Inl e \<Rightarrow> Inl e
                               | Inr lowered \<Rightarrow>
                                   Inr (''Here'' @ sq @ ''s a summary of the paper '' @ sq @ py_str title @ sq @ '':\<newline>\<newline>'' @
                                        ''This research by '' @ names @ '' '' @
                                        ''investigates '' @ lowered @ ''. '' @
                                        ''\<newline>\<newline>The paper makes several key contributions:\<newline>'' @
                                        ''1. Development of novel methodologies for addressing challenges in this domain\<newline>'' @
                                        ''2. Empirical evidence supporting the effectiveness of the proposed approach\<newline>'' @
                                        ''3. Theoretical foundations that advance our understanding of the underlying principles\<newline>\<newline>'' @
                                        ''The research is particularly notable for its rigorous methodology and comprehensive analysis.'')))))))"

text \<open>The numbered items of lines 117-118 and 138-139; \<open>i\<close> is the index \<open>enumerate\<close> gives.\<close>

fun numbered_items :: "nat \<Rightarrow> pyval list \<Rightarrow> py_error + string" where
  "numbered_items i [] = Inr []"
| "numbered_items i (item # items) =
     (case py_subscript item ''title'' of
        Inl e \<Rightarrow> Inl e
      | Inr t \<Rightarrow>
          (case py_subscript item ''description'' of
             Inl e \<Rightarrow> Inl e
           | Inr d \<Rightarrow>
               (case numbered_items (Suc i) items of
                  Inl e \<Rightarrow> Inl e
                | Inr rest \<Rightarrow>
                    Inr (str_int (int i + 1) @ ''. **'' @ py_str t @ ''**: '' @ py_str d @
                         ''\<newline>\<newline>'' @ rest))))"

text \<open>The bulleted items of lines 159-160 and 163-164\<close>

definition bulleted_items :: "pyval list \<Rightarrow> string" where
  "bulleted_items items = concat (map (\<lambda>v. ''- '' @ py_str v @ ''\<newline>'') items)"

text \<open>
  \<open>isinstance(self.research_context[1], dict) and key in self.research_context[1]\<close>:
  the part of the analysis under \<open>key\<close> when the test holds. Indexing a context of one
  element raises \<open>IndexError\<close>.
\<close>

definition structured :: "pyval list \<Rightarrow> string \<Rightarrow> py_error + pyval option" where
  "structured ctx key =
     (case second ctx of
        Inl e \<Rightarrow> Inl e
      | Inr (PDict d) \<Rightarrow> Inr (dict_get d key)
      | Inr _ \<Rightarrow> Inr None)"

text \<open>Lines 112-126\<close>

definition findings_response :: "pyval list \<Rightarrow> py_error + string" where
  "findings_response ctx =
     (case ctx of
        [] \<Rightarrow>
          Inr (''I don'' @ sq @ ''t have a specific paper in context to discuss findings. '' @
               ''Please select a paper first, or ask a more general research question.'')
      | paper # _ \<Rightarrow>
          (case structured ctx ''key_findings'' of
             Inl e \<Rightarrow> Inl e
           | Inr (Some findings) \<Rightarrow>
               (case ctx_get paper ''title'' (PStr ''the paper'') of
                  Inl e \<Rightarrow> Inl e
                | Inr title \<Rightarrow>
                    (case py_iter findings of
                       Inl e \<Rightarrow> Inl e
                     | Inr items \<Rightarrow>
                         (case numbered_items 0 items of
                            Inl e \<Rightarrow> Inl e
                          | Inr body \<Rightarrow>
                              Inr (''The key findings of '' @ sq @ py_str title @ sq @ '' include:\<newline>\<newline>'' @
                                   body))))
           | Inr None \<Rightarrow>
               (case ctx_get paper ''title'' (PStr ''selected'') of
                  Inl e \<Rightarrow> Inl e
                | Inr title \<Rightarrow>
                    Inr (''The paper '' @ sq @ py_str title @ sq @ '' presents several important findings, '' @
                         ''including methodological innovations, empirical results supporting their hypotheses, '' @
                         ''and theoretical contributions to the field.''))))"

text \<open>Lines 130-147\<close>

definition methodology_response :: "pyval list \<Rightarrow> py_error + string" where
  "methodology_response ctx =
     (case ctx of
        [] \<Rightarrow>
          Inr (''I don'' @ sq @ ''t have a specific paper in context to discuss methodology. '' @
               ''If you'' @ sq @ ''re asking about research methods in general, please specify which area or approach you'' @ sq @ ''re interested in.'')
      | paper # _ \<Rightarrow>
          (case structured ctx ''methodology'' of
             Inl e \<Rightarrow> Inl e
           | Inr (Some methodology) \<Rightarrow>
               (case ctx_get paper ''title'' (PStr ''the paper'') of
                  Inl e \<Rightarrow> Inl e
                | Inr title \<Rightarrow>
                    (case py_subscript methodology ''description'' of
                       Inl e \<Rightarrow> Inl e
                     | Inr description \<Rightarrow>
                         (case py_concat_str description ''\<newline>\<newline>'' of
                            Inl e \<Rightarrow> Inl e
                          | Inr described \<Rightarrow>
                              (case (case py_subscript methodology ''steps'' of
                                       Inl e \<Rightarrow> Inr []
                                     | Inr steps \<Rightarrow>
                                         if truthy steps
                                         then (case py_iter steps of
                                                 Inl e \<Rightarrow> Inl e
                                               | Inr items \<Rightarrow>
                                                   (case numbered_items 0 items of
                                                      Inl e \<Rightarrow> Inl e
                                                    | Inr body \<Rightarrow>
                                                        Inr (''The research process involved these key steps:\<newline>\<newline>'' @
                                                             body)))
                                         else Inr []) of
                                 Inl e \<Rightarrow> Inl e
                               | Inr steps_text \<Rightarrow>
                                   Inr (''The methodology in '' @ sq @ py_str title @ sq @ '' is as follows:\<newline>\<newline>'' @
                                        described @ steps_text)))))
           | Inr None \<Rightarrow>
               Inr (''The researchers employed a multi-faceted methodology combining quantitative analysis '' @
                    ''with qualitative assessments. Their approach involved data collection from multiple sources, '' @
                    ''rigorous preprocessing, model development, and comprehensive evaluation against established benchmarks.'')))"

text \<open>Lines 151-175\<close>

definition implications_response :: "pyval list \<Rightarrow> py_error + string" where
  "implications_response ctx =
     (case ctx of
        [] \<Rightarrow>
          Inr (''To discuss research implications, it would be helpful to have a specific paper in context. '' @
               ''Please select a paper first, or specify which research area you'' @ sq @ ''re interested in.'')
      | paper # _ \<Rightarrow>
          (case structured ctx ''implications'' of
             Inl e \<Rightarrow> Inl e
           | Inr (Some implications) \<Rightarrow>
               (case ctx_get paper ''title'' (PStr ''the paper'') of
                  Inl e \<Rightarrow> Inl e
                | Inr title \<Rightarrow>
                    (case py_subscript implications ''description'' of
                       Inl e \<Rightarrow> Inl e
                     | Inr description \<Rightarrow>
                         (case py_concat_str description ''\<newline>\<newline>'' of
                            Inl e \<Rightarrow> Inl e
                          | Inr described \<Rightarrow>
                              (case py_subscript implications ''research_gaps'' of
                                 Inl e \<Rightarrow> Inl e
                               | Inr gaps \<Rightarrow>
                                   (case py_iter gaps of
                                      Inl e \<Rightarrow> Inl e
                                    | Inr gap_items \<Rightarrow>
                                        (case py_subscript implications ''future_directions'' of
                                           Inl e \<Rightarrow> Inl e
                                         | Inr directions \<Rightarrow>
                                             (case py_iter directions of
                                                Inl e \<Rightarrow> Inl e
                                              | Inr direction_items \<Rightarrow>
                                                  Inr (''**Implications of '' @ sq @ py_str title @ sq @ '':**\<newline>\<newline>'' @
                                                       described @
                                                       ''**Research Gaps Identified:**\<newline>'' @
                                                       bulleted_items gap_items @
                                                       ''\<newline>**Future Research Directions:**\<newline>'' @
                                                       bulleted_items direction_items))))))))
           | Inr None \<Rightarrow>
               (case ctx_get paper ''title'' (PStr ''the subject'') of
                  Inl e \<Rightarrow> Inl e
                | Inr subject \<Rightarrow>
                    (case py_lower subject of
                       Inl e \<Rightarrow> Inl e
                     | Inr lowered \<Rightarrow>
                         Inr (''The research has several important implications for both theory and practice. '' @
                              ''It extends our understanding of '' @ lowered @ '' and '' @
                              ''provides practical approaches that can be applied in real-world scenarios. '' @
                              ''Future work could explore additional domains, incorporate more diverse datasets, '' @
                              ''and develop more efficient computational methods.'')))))"

text \<open>Lines 178-181\<close>

definition compare_response :: string where
  "compare_response =
     ''To compare multiple papers, please select at least two papers from your search results. '' @
     ''Currently, our system allows detailed analysis of one paper at a time, but we'' @ sq @ ''re working '' @
     ''on adding multi-paper comparison features in the future.''"

text \<open>
  Lines 185-198. \<open>rnd\<close> stands for the draw of \<open>random.choice\<close> among the three words.
\<close>

definition general_response :: "pyval list \<Rightarrow> string \<Rightarrow> nat \<Rightarrow> py_error + string" where
  "general_response ctx user_query rnd =
     (case ctx of
        [] \<Rightarrow>
          Inr (''To provide a more informed response about '' @ user_query @
               '', it would be helpful to have a specific '' @
               ''research paper in context. You can search for relevant papers using the Search function, or I can '' @
               ''try to answer your question based on general knowledge in this field.\<newline>\<newline>'' @
               ''Would you like to search for papers related to this topic, or would you prefer a general overview?'')
      | paper # _ \<Rightarrow>
          (case ctx_get paper ''title'' (PStr ''the selected paper'') of
             Inl e \<Rightarrow> Inl e
           | Inr title \<Rightarrow>
               (case ctx_get paper ''title'' (PStr ''the research topic'') of
                  Inl e \<Rightarrow> Inl e
                | Inr topic \<Rightarrow>
                    (case py_lower topic of
                       Inl e \<Rightarrow> Inl e
                     | Inr lowered \<Rightarrow>
                         Inr (''Regarding your question about '' @ user_query @
                              '', in the context of '' @ sq @ py_str title @ sq @ '':\<newline>\<newline>'' @
                              ''The paper addresses aspects related to your question through its '' @
                              [''innovative'', ''comprehensive'', ''novel''] ! (rnd mod 3) @ '' '' @
                              ''approach to '' @ lowered @ ''. The authors provide insights that '' @
                              ''contribute to our understanding of this area, specifically through their analysis of relevant factors '' @
                              ''and the implications of their findings for both theory and practice.\<newline>\<newline>'' @
                              ''For more specific information, you might consider asking about the paper'' @ sq @ ''s methodology, key findings, '' @
                              ''or broader implications.'')))))"

subsection \<open>\<open>generate_response\<close>\<close>

text \<open>
  The body of the \<open>try\<close>. \<open>now_user\<close>, \<open>now_history\<close> and \<open>now_reply\<close> are the clock
  readings of line 61, of \<open>add_history_item\<close> and of line 105. The user turn is
  appended before anything can raise. Only the summary branch appends the reply to
  the transcript (lines 102-106); every other branch returns its text at once.
\<close>

definition generate_response_body ::
  "chat_state \<Rightarrow> string \<Rightarrow> string \<Rightarrow> string \<Rightarrow> nat \<Rightarrow> string \<Rightarrow> int option \<Rightarrow>
     (py_error + string) \<times> chat_state" where
  "generate_response_body st now_user now_history now_reply rnd user_query user_id =
     (let ctx = research_context st;
          query_lower = lower user_query;
          st1 = st\<lparr>chat_history := chat_history st @ [turn ''user'' user_query now_user]\<rparr>
      in case log_chat (chat_db st1) now_history ctx user_query user_id of
           (Inl e, db1) \<Rightarrow> (Inl e, st1\<lparr>chat_db := db1\<rparr>)
         | (Inr ok, db1) \<Rightarrow>
             (let st2 = st1\<lparr>chat_db := db1\<rparr>
              in if contains query_lower ''summary'' \<or> contains query_lower ''summarize''
                 then (case summary_response ctx of
                         Inl e \<Rightarrow> (Inl e, st2)
                       | Inr response \<Rightarrow>
                           (Inr response,
                            st2\<lparr>chat_history :=
                                  chat_history st2 @ [turn ''assistant'' response now_reply]\<rparr>))
                 else if contains query_lower ''findings'' \<or> contains query_lower ''results'' \<or>
                         contains query_lower ''discover''
                 then (findings_response ctx, st2)
                 else if contains query_lower ''method'' \<or> contains query_lower ''approach'' \<or>
                         contains query_lower ''how did they''
                 then (methodology_response ctx, st2)
                 else if list_ex (contains query_lower)
                           [''implications'', ''impact'', ''future'', ''next steps'']
                 then (implications_response ctx, st2)
                 else if contains query_lower ''compare'' \<or> contains query_lower ''difference'' \<or>
                         contains query_lower ''similar''
                 then (Inr compare_response, st2)
                 else (general_response ctx user_query rnd, st2)))"

text \<open>\<open>generate_response\<close>: the \<open>except Exception\<close> returns the apology and appends nothing.\<close>

definition generate_response ::
  "chat_state \<Rightarrow> string \<Rightarrow> string \<Rightarrow> string \<Rightarrow> nat \<Rightarrow> string \<Rightarrow> int option \<Rightarrow> string \<times> chat_state" where
  "generate_response st now_user now_history now_reply rnd user_query user_id =
     (case generate_response_body st now_user now_history now_reply rnd user_query user_id of
        (Inl e, st1) \<Rightarrow> (apology, st1)
      | (Inr response, st1) \<Rightarrow> (response, st1))"

subsection \<open>The external key of a record\<close>

text \<open>
  The key \<open>add_paper\<close> stores a record under: the record's \<open>paper_id\<close>, or the one
  lines 179-180 compute.
\<close>

definition external_key :: "pydict \<Rightarrow> py_error + pyval" where
  "external_key p =
     (case set_paper_id p of Inl e \<Rightarrow> Inl e | Inr d \<Rightarrow> dict_item d ''paper_id'')"

text \<open>What lines 183-184 make of the value under \<open>authors\<close>.\<close>

definition dumped :: "pyval \<Rightarrow> pyval" where
  "dumped v = (case v of PList xs \<Rightarrow> PStr (json_dumps (PList xs)) | _ \<Rightarrow> v)"

subsection \<open>Records whose fields SQLite accepts\<close>

text \<open>
  A record none of whose core fields is refused as an SQL parameter, and which has a
  title and authors: for such a record \<open>add_paper\<close> does not raise. An authors list
  is fine, since line 184 turns it into text first.
\<close>

definition bindable :: "pyval \<Rightarrow> bool" where
  "bindable v = (sql_bind v = Inr v)"

definition field_bindable :: "pydict \<Rightarrow> string \<Rightarrow> bool" where
  "field_bindable p k = (case dict_get p k of None \<Rightarrow> True | Some v \<Rightarrow> bindable v)"

definition bindable_paper :: "pydict \<Rightarrow> bool" where
  "bindable_paper p =
     (dict_get p ''title'' \<noteq> None \<and> dict_get p ''authors'' \<noteq> None \<and>
      field_bindable p ''paper_id'' \<and> field_bindable p ''title'' \<and>
      (case dict_get p ''authors'' of Some (PList xs) \<Rightarrow> True | _ \<Rightarrow> field_bindable p ''authors'') \<and>
      field_bindable p ''year'' \<and> field_bindable p ''source'' \<and>
      field_bindable p ''abstract'' \<and> field_bindable p ''citation_count'' \<and>
      field_bindable p ''url'')"

subsection \<open>Records \<open>add_paper\<close> stores, and the saved papers of a user\<close>

text \<open>
  A record whose fields SQLite accepts and whose title, authors and key are not \<open>None\<close>:
  the \<open>INSERT\<close> of \<open>add_paper\<close> meets no \<open>NOT NULL\<close> violation.
\<close>


definition storable_paper :: "pydict \<Rightarrow> bool" where
  "storable_paper p =
     (bindable_paper p \<and> dict_get p ''title'' \<noteq> Some PNone \<and>
      dict_get p ''authors'' \<noteq> Some PNone \<and>
      (case external_key p of Inl e \<Rightarrow> False | Inr k \<Rightarrow> k \<noteq> PNone))"

text \<open>The number of \<open>user_papers\<close> rows of a user and a paper.\<close>

definition saved_count :: "database \<Rightarrow> int \<Rightarrow> int \<Rightarrow> nat" where
  "saved_count db user_id paper_id =
     length (filter (\<lambda>r. up_user_id r = user_id \<and> up_paper_id r = paper_id) (user_papers db))"

text \<open>A store with one registered user (the row \<open>create_user\<close> writes) and no paper.\<close>

definition example_user :: user_row where
  "example_user =
     \<lparr>u_id = 1, u_username = ''ada'', u_email = ''ada@example.org'', u_password_hash = ''x'',
      u_join_date = ''2024-01-01 09:00:00'', u_last_login = PNone, u_preferences = PNone\<rparr>"

definition registered_store :: database where
  "registered_store = empty_database\<lparr>users := [example_user]\<rparr>"

text \<open>A clock that reads the same second at every call.\<close>

definition example_clock :: "nat \<Rightarrow> string" where
  "example_clock i = ''2024-01-01 10:00:00''"

text \<open>A value \<open>v\<close> for which \<open>'', ''.join(v[:3])\<close> is defined once a list is JSON text.\<close>

definition text_or_list :: "pyval \<Rightarrow> bool" where
  "text_or_list v = (case v of PStr s \<Rightarrow> True | PList xs \<Rightarrow> True | _ \<Rightarrow> False)"

text \<open>
  A session whose context is the example paper with the error document
  \<open>analyze_paper\<close> returns when \<open>add_paper\<close> gives no id, over the store with one
  registered user; and the same session with the paper alone as context.
\<close>

definition example_session :: chat_state where
  "example_session =
     \<lparr>research_context = [PDict example_paper, PDict error_analysis], chat_history = [],
      chat_db = registered_store\<rparr>"

section \<open>Properties\<close>

subsection \<open>Row ids and the consistency of the store\<close>

lemma fold_max_ge: "(s::int) \<le> fold max xs s \<and> (\<forall>x\<in>set xs. x \<le> fold max xs s)"
proof (induction xs arbitrary: s)
  case Nil
  then show ?case by simp
next
  case (Cons a xs)
  have "max a s \<le> fold max xs (max a s)"
    using Cons.IH by blast
  then show ?case
    using Cons.IH [of "max a s"] by auto
qed

lemma next_rowid_fresh: "next_rowid s ids \<notin> set ids"
  using fold_max_ge [of s ids] by (auto simp: next_rowid_def)

lemma next_rowid_pos: "0 \<le> s \<Longrightarrow> 0 < next_rowid s ids"
  using fold_max_ge [of s ids] by (auto simp: next_rowid_def)

lemma empty_database_inv: "db_inv empty_database"
  by (simp add: db_inv_def empty_database_def)

lemma insert_paper_inv: "db_inv db \<Longrightarrow> db_inv (snd (insert_paper db d))"
  using next_rowid_fresh [of "papers_seq db" "map p_id (papers db)"]
        next_rowid_pos [of "papers_seq db" "map p_id (papers db)"]
  by (auto simp: insert_paper_def db_inv_def papers_violation_def stored_paper_def Let_def
        sql_text_def split: sum.splits pyval.splits)

lemma add_paper_inv: "db_inv db \<Longrightarrow> db_inv (snd (snd (add_paper db now p)))"
  by (simp add: add_paper_def insert_paper_inv split: sum.splits)

lemma add_paper_users: "users (snd (snd (add_paper db now p))) = users db"
  by (auto simp: add_paper_def insert_paper_def Let_def split: sum.splits)

lemma save_paper_for_user_inv:
  "db_inv db \<Longrightarrow> db_inv (snd (snd (save_paper_for_user db t1 t2 u p)))"
  using add_paper_inv [of db t1 p]
  by (auto simp: save_paper_for_user_def db_inv_def user_papers_violation_def Let_def
           split: sum.splits prod.splits option.splits)

lemma save_paper_analysis_inv:
  "db_inv db \<Longrightarrow> db_inv (snd (save_paper_analysis db now i a))"
  by (auto simp: save_paper_analysis_def db_inv_def Let_def split: sum.splits)

lemma add_history_item_inv:
  "db_inv db \<Longrightarrow> db_inv (snd (add_history_item db now u a t d))"
  by (auto simp: add_history_item_def db_inv_def Let_def split: sum.splits)

subsection \<open>Analysis rows\<close>

lemma example_store_papers: "map p_id (papers example_store) = [1]"
  by (simp add: example_store_def example_paper_def add_paper_def prepare_paper_def
      set_paper_id_def dict_keys_def dict_item_def slice_to_def dump_authors_def
      dict_get_def core_fields_def dict_pop_def insert_paper_def paper_params_def
      sql_bind_def paper_param_list_def papers_violation_def empty_database_def
      next_rowid_def dict_getd_def Let_def py_str_def stored_paper_def)

text \<open>
  C3 (the code departs from the claim). The claim: after any sequence of
  \<open>save_paper_analysis\<close> calls there is at most one analysis row per paper, a second
  save overwriting the first. The code: \<open>paper_analysis\<close> has no \<open>UNIQUE\<close> constraint
  on \<open>paper_id\<close>, so for a paper that is in \<open>papers\<close> the \<open>INSERT\<close> never raises
  \<open>IntegrityError\<close>, the \<open>UPDATE\<close> of the handler is never reached, and every call
  returns \<open>True\<close> and adds one more row for the paper.
\<close>

theorem save_paper_analysis_appends_row:
  assumes "paper_id \<in> set (map p_id (papers db))"
    and "bind_all [PInt paper_id, dict_getd doc ''summary'' (PStr [])] = Inr bs"
  shows "fst (save_paper_analysis db now paper_id doc) = Inr True \<and>
         analysis_count (snd (save_paper_analysis db now paper_id doc)) paper_id =
           Suc (analysis_count db paper_id)"
  using assms
  by (simp add: save_paper_analysis_def analysis_violation_def analysis_count_def Let_def)

text \<open>Two saves for paper 1 of the example store leave two rows for it.\<close>

theorem save_paper_analysis_appends_row_witness:
  "analysis_count
     (snd (save_paper_analysis
             (snd (save_paper_analysis example_store ''2024-01-01 10:00:01'' 1
                     example_analysis))
             ''2024-01-01 10:00:02'' 1 example_analysis)) 1 = 2"
proof -
  let ?db1 =
    "snd (save_paper_analysis example_store ''2024-01-01 10:00:01'' 1 example_analysis)"
  have b: "bind_all [PInt 1, dict_getd example_analysis ''summary'' (PStr [])] =
             Inr [PInt 1, PStr ''A summary'']"
    by (simp add: example_analysis_def dict_getd_def sql_bind_def)
  have p0: "(1::int) \<in> set (map p_id (papers example_store))"
    by (simp add: example_store_papers)
  have p1: "(1::int) \<in> set (map p_id (papers ?db1))"
    using p0 b by (simp add: save_paper_analysis_def analysis_violation_def Let_def)
  have c0: "analysis_count example_store 1 = 0"
    by (simp add: analysis_count_def example_store_def add_paper_def insert_paper_def
        empty_database_def Let_def split: sum.splits)
  show ?thesis
    using save_paper_analysis_appends_row [OF p0 b, of "''2024-01-01 10:00:01''"]
      save_paper_analysis_appends_row [OF p1 b, of "''2024-01-01 10:00:02''"] c0
    by simp
qed

subsection \<open>Dictionaries and the record \<open>add_paper\<close> prepares\<close>

lemma map_of_dict_set: "map_of (dict_set d k v) k' = (if k' = k then Some v else map_of d k')"
  by (induction d k v rule: dict_set.induct) auto

lemma dict_get_dict_set: "dict_get (dict_set d k v) k' = (if k' = k then Some v else dict_get d k')"
  by (simp add: dict_get_def map_of_dict_set)

lemma map_of_filter_key: "map_of (filter (\<lambda>kv. P (fst kv)) d) k = (if P k then map_of d k else None)"
  by (induction d) auto

lemma map_of_filter_core:
  "map_of (filter (\<lambda>kv. fst kv \<in> set core_fields) d) k =
     (if k \<in> set core_fields then map_of d k else None)"
  by (induction d) auto

lemma dict_pop_filter: "dict_pop (filter Q d) k = filter Q (dict_pop d k)"
  by (induction d) (auto simp: dict_pop_def)

lemma fst_extract_metadata:
  "fst (extract_metadata kvs d m) =
     filter (\<lambda>kv. fst kv \<in> set core_fields \<or> fst kv \<notin> fst ` set kvs) d"
proof (induction kvs arbitrary: d m)
  case Nil
  then show ?case by simp
next
  case (Cons kv kvs)
  show ?case
  proof (cases "fst kv \<in> set core_fields")
    case True
    have "filter (\<lambda>x. fst x \<in> set core_fields \<or> fst x \<notin> fst ` set kvs) d =
          filter (\<lambda>x. fst x \<in> set core_fields \<or> fst x \<notin> fst ` set (kv # kvs)) d"
      using True by (intro filter_cong) auto
    then show ?thesis using True Cons.IH by simp
  next
    case False
    have "filter (\<lambda>x. fst x \<in> set core_fields \<or> fst x \<notin> fst ` set kvs) (dict_pop d (fst kv)) =
          filter (\<lambda>x. fst x \<in> set core_fields \<or> fst x \<notin> fst ` set (kv # kvs)) d"
      using False unfolding dict_pop_def filter_filter by (intro filter_cong) auto
    then show ?thesis using False Cons.IH by simp
  qed
qed

lemma fst_extract_metadata_self:
  "fst (extract_metadata d d []) = filter (\<lambda>kv. fst kv \<in> set core_fields) d"
  unfolding fst_extract_metadata by (intro filter_cong) auto

lemma snd_extract_metadata:
  "distinct (map fst kvs) \<Longrightarrow> fst ` set m \<inter> fst ` set kvs = {} \<Longrightarrow>
   snd (extract_metadata kvs d m) = m @ filter (\<lambda>kv. fst kv \<notin> set core_fields) kvs"
proof (induction kvs arbitrary: d m)
  case Nil
  then show ?case by simp
next
  case (Cons kv kvs)
  show ?case
  proof (cases "fst kv \<in> set core_fields")
    case True
    then show ?thesis using Cons by auto
  next
    case False
    have nk: "fst kv \<notin> fst ` set m" using Cons.prems by auto
    have ds: "dict_set m (fst kv) (snd kv) = m @ [kv]"
      using nk by (induction m) auto
    have "fst ` set (m @ [kv]) \<inter> fst ` set kvs = {}"
      using Cons.prems by auto
    then show ?thesis using False Cons ds by simp
  qed
qed


lemma core_fields_simps [simp]:
  "''paper_id'' \<in> set core_fields" "''title'' \<in> set core_fields"
  "''authors'' \<in> set core_fields" "''year'' \<in> set core_fields"
  "''source'' \<in> set core_fields" "''abstract'' \<in> set core_fields"
  "''citation_count'' \<in> set core_fields" "''url'' \<in> set core_fields"
  "''metadata'' \<notin> set core_fields" "''date_added'' \<notin> set core_fields"
  by (simp_all add: core_fields_def)

text \<open>The record \<open>prepare_paper\<close> returns, field by field.\<close>

lemma prepare_paper_get:
  assumes "prepare_paper now p = Inr d"
  shows "dict_get d k =
           (if k = ''date_added'' then Some (PStr now)
            else if k = ''metadata''
            then Some (PStr (json_dumps (PDict (snd (extract_metadata
                   (dump_authors (case set_paper_id p of Inr d1 \<Rightarrow> d1 | Inl e \<Rightarrow> p))
                   (dump_authors (case set_paper_id p of Inr d1 \<Rightarrow> d1 | Inl e \<Rightarrow> p)) [])))))
            else if k \<notin> set core_fields then None
            else dict_get (dump_authors (case set_paper_id p of Inr d1 \<Rightarrow> d1 | Inl e \<Rightarrow> p)) k)"
  using assms
  by (auto simp: prepare_paper_def Let_def map_of_dict_set fst_extract_metadata_self
        dict_get_def map_of_filter_core simp del: json_dumps.simps split: sum.splits)

lemma dump_authors_get:
  "dict_get (dump_authors d) k =
     (if k = ''authors'' then map_option dumped (dict_get d ''authors'') else dict_get d k)"
  by (auto simp: dump_authors_def dict_get_dict_set dumped_def split: option.splits pyval.splits)

lemma set_paper_id_get:
  assumes "set_paper_id p = Inr d1" and "k \<noteq> ''paper_id''"
  shows "dict_get d1 k = dict_get p k"
  using assms
  by (auto simp: set_paper_id_def dict_get_dict_set split: if_splits sum.splits)

lemma keys_dict_set: "fst ` set (dict_set d k v) = insert k (fst ` set d)"
  by (induction d k v rule: dict_set.induct) auto

lemma external_key_get:
  assumes "set_paper_id p = Inr d1"
  shows "\<exists>key. external_key p = Inr key \<and> dict_get d1 ''paper_id'' = Some key"
  using assms
  by (auto simp: external_key_def set_paper_id_def dict_item_def dict_get_def map_of_dict_set
        dict_keys_def map_of_eq_None_iff keys_dict_set
      split: if_splits sum.splits option.splits)

lemma prepare_paper_Inr:
  "prepare_paper now p = Inr d \<Longrightarrow> \<exists>d1. set_paper_id p = Inr d1"
  by (auto simp: prepare_paper_def split: sum.splits)

lemma prepare_paper_external_key:
  "(\<exists>d. prepare_paper now p = Inr d) = (\<exists>key. external_key p = Inr key)"
  by (auto simp: prepare_paper_def external_key_def Let_def dict_item_def set_paper_id_def
        map_of_dict_set dict_keys_def map_of_eq_None_iff keys_dict_set
      split: sum.splits option.splits if_splits)

lemma prepare_paper_fields:
  assumes "prepare_paper now p = Inr d"
  shows "dict_get d ''paper_id'' = (case external_key p of Inr key \<Rightarrow> Some key | Inl e \<Rightarrow> None)"
    and "dict_get d ''authors'' = map_option dumped (dict_get p ''authors'')"
    and "dict_get d ''title'' = dict_get p ''title''"
    and "dict_get d ''year'' = dict_get p ''year''"
    and "dict_get d ''source'' = dict_get p ''source''"
    and "dict_get d ''abstract'' = dict_get p ''abstract''"
    and "dict_get d ''citation_count'' = dict_get p ''citation_count''"
    and "dict_get d ''url'' = dict_get p ''url''"
    and "dict_get d ''date_added'' = Some (PStr now)"
    and "\<exists>m. dict_get d ''metadata'' = Some (PStr m)"
proof -
  obtain d1 where d1: "set_paper_id p = Inr d1"
    using prepare_paper_Inr [OF assms] by blast
  obtain key where key: "external_key p = Inr key" "dict_get d1 ''paper_id'' = Some key"
    using external_key_get [OF d1] by blast
  note g = prepare_paper_get [OF assms] dump_authors_get d1 set_paper_id_get [OF d1]
  show "dict_get d ''paper_id'' = (case external_key p of Inr key \<Rightarrow> Some key | Inl e \<Rightarrow> None)"
    by (simp add: g key)
  show "dict_get d ''authors'' = map_option dumped (dict_get p ''authors'')" by (simp add: g)
  show "dict_get d ''title'' = dict_get p ''title''" by (simp add: g)
  show "dict_get d ''year'' = dict_get p ''year''" by (simp add: g)
  show "dict_get d ''source'' = dict_get p ''source''" by (simp add: g)
  show "dict_get d ''abstract'' = dict_get p ''abstract''" by (simp add: g)
  show "dict_get d ''citation_count'' = dict_get p ''citation_count''" by (simp add: g)
  show "dict_get d ''url'' = dict_get p ''url''" by (simp add: g)
  show "dict_get d ''date_added'' = Some (PStr now)" by (simp add: g)
  show "\<exists>m. dict_get d ''metadata'' = Some (PStr m)" by (simp add: g)
qed

subsection \<open>\<open>add_paper\<close> on a key that is stored\<close>

lemma find_distinct_key:
  "distinct (map f xs) \<Longrightarrow> x \<in> set xs \<Longrightarrow> find (\<lambda>y. f y = f x) xs = Some x"
  by (induction xs) (auto simp: rev_image_eqI)

lemma select_paper_id_found:
  assumes "db_inv db" and "row \<in> set (papers db)" and "p_paper_id row = sql_text k"
  shows "select_paper_id db k = Some (p_id row)"
proof -
  have nn: "p_paper_id row \<noteq> PNone"
    using assms(1,2) by (auto simp: db_inv_def list_all_iff)
  then have k: "k \<noteq> PNone"
    using assms(3) by (auto simp: sql_text_def)
  have "find (\<lambda>y. p_paper_id y = p_paper_id row) (papers db) = Some row"
    using assms(1,2) by (intro find_distinct_key) (auto simp: db_inv_def)
  then show ?thesis
    using k assms(3) by (simp add: select_paper_id_def)
qed

lemma insert_paper_existing:
  assumes "db_inv db" and "dict_get d ''paper_id'' = Some k"
    and "row \<in> set (papers db)" and "p_paper_id row = sql_text k"
  shows "snd (insert_paper db d) = db"
    and "fst (insert_paper db d) = Inr (Some (p_id row)) \<or> (\<exists>e. fst (insert_paper db d) = Inl e)"
proof -
  have v: "\<And>r. paper_params d = Inr r \<Longrightarrow> p_paper_id r = k"
    using assms(2) by (auto simp: paper_params_def dict_item_def dict_get_def split: option.splits sum.splits)
  have mem: "sql_text k \<in> set (map p_paper_id (papers db))"
    using assms(3,4) by force
  have viol: "\<And>r. paper_params d = Inr r \<Longrightarrow> papers_violation db r"
    using v mem by (simp add: papers_violation_def)
  show "snd (insert_paper db d) = db"
    using viol by (auto simp: insert_paper_def split: sum.splits)
  show "fst (insert_paper db d) = Inr (Some (p_id row)) \<or> (\<exists>e. fst (insert_paper db d) = Inl e)"
    using viol v select_paper_id_found [OF assms(1,3,4)]
    by (auto simp: insert_paper_def split: sum.splits)
qed

lemma sql_bind_bindable: "bindable v \<Longrightarrow> sql_bind v = Inr v"
  by (simp add: bindable_def)

lemma bindable_PStr [simp]: "bindable (PStr s)"
  by (simp add: bindable_def sql_bind_def)

lemma bindable_PInt0 [simp]: "bindable (PInt 0)"
  by (simp add: bindable_def sql_bind_def)

lemma bindable_dumped: "(case v of PList xs \<Rightarrow> True | _ \<Rightarrow> bindable v) \<Longrightarrow> bindable (dumped v)"
  by (cases v) (auto simp: dumped_def simp del: json_dumps.simps)

lemma field_bindable_getd: "field_bindable p k \<Longrightarrow> bindable dflt \<Longrightarrow> bindable (dict_getd p k dflt)"
  by (auto simp: field_bindable_def dict_getd_def dict_get_def split: option.splits)

lemma external_key_bindable:
  assumes "field_bindable p ''paper_id''" and "external_key p = Inr k"
  shows "bindable k"
  using assms
  by (auto simp: external_key_def set_paper_id_def field_bindable_def dict_get_def dict_item_def
        dict_keys_def map_of_dict_set split: if_splits sum.splits option.splits)

lemma prepared_params:
  assumes "bindable_paper p" and "prepare_paper now p = Inr d"
  shows "\<exists>r. paper_params d = Inr r \<and> bind_all (paper_param_list r) = Inr (paper_param_list r)"
proof -
  note f = prepare_paper_fields [OF assms(2)]
  obtain k where k: "external_key p = Inr k"
    using prepare_paper_external_key [of now p] assms(2) by auto
  obtain t where t: "dict_get p ''title'' = Some t" and bt: "bindable t"
    using assms(1) by (auto simp: bindable_paper_def field_bindable_def)
  obtain a where a: "dict_get p ''authors'' = Some a" and ba: "bindable (dumped a)"
    using assms(1) bindable_dumped
    by (cases "dict_get p ''authors''")
       (auto simp: bindable_paper_def field_bindable_def split: pyval.splits intro!: bindable_dumped)
  obtain m where m: "dict_get d ''metadata'' = Some (PStr m)"
    using f(10) by blast
  have bk: "bindable k"
    using external_key_bindable assms(1) k by (auto simp: bindable_paper_def)
  have fb: "field_bindable d ''year''" "field_bindable d ''source''" "field_bindable d ''abstract''"
    "field_bindable d ''citation_count''" "field_bindable d ''url''"
    using assms(1) by (auto simp: field_bindable_def f bindable_paper_def)
  have pp: "paper_params d =
      Inr \<lparr>p_id = 0, p_paper_id = k, p_title = t, p_authors = dumped a,
           p_year = dict_getd d ''year'' (PStr []), p_source = dict_getd d ''source'' (PStr []),
           p_abstract = dict_getd d ''abstract'' (PStr []),
           p_citation_count = dict_getd d ''citation_count'' (PInt 0),
           p_url = dict_getd d ''url'' (PStr []), p_metadata = PStr m, p_date_added = PStr now\<rparr>"
    using f(1,2,3,9) k t a m
    by (simp add: paper_params_def dict_item_def dict_get_def)
  show ?thesis
    unfolding pp
    using bk bt ba fb
    by (simp add: paper_param_list_def sql_bind_bindable field_bindable_getd)
qed


lemma add_paper_prepared:
  "prepare_paper now p = Inr d \<Longrightarrow>
   add_paper db now p = (fst (insert_paper db d), d, snd (insert_paper db d))"
  by (simp add: add_paper_def)

lemma external_key_format:
  assumes "external_key p = Inr k" and "dict_get p ''paper_id'' = None"
    and "dict_get p ''source'' = Some (PStr s)" and "dict_get p ''title'' = Some (PStr t)"
  shows "k = PStr (s @ ''_'' @ take 50 t)"
  using assms
  by (auto simp: external_key_def set_paper_id_def dict_get_def dict_item_def dict_keys_def
        map_of_dict_set slice_to_def py_str_def map_of_eq_None_iff
      split: if_splits sum.splits option.splits)

lemma external_key_depends:
  assumes "''paper_id'' \<notin> set (dict_keys q)" and "''paper_id'' \<notin> set (dict_keys p)"
    and "dict_get q ''source'' = dict_get p ''source''"
    and "dict_get q ''title'' = dict_get p ''title''"
  shows "external_key q = external_key p"
  using assms
  by (auto simp: external_key_def set_paper_id_def dict_get_def dict_item_def map_of_dict_set
      split: sum.splits option.splits)

text \<open>
  C5. For a record whose external key is the key of a stored row, \<open>add_paper\<close> leaves
  the store as it is (no second row, the stored row untouched) and, unless it raises,
  returns the id of that row; it does not raise when the record is
  \<open>bindable_paper\<close>. A record without \<open>paper_id\<close> gets a key that depends on its
  source and title only: for a text source \<open>s\<close> and a text title \<open>t\<close> it is \<open>s\<close>, an
  underscore and the first 50 characters of \<open>t\<close>.
\<close>

theorem add_paper_existing_key:
  assumes "db_inv db" and "external_key p = Inr k"
    and "row \<in> set (papers db)" and "p_paper_id row = sql_text k"
  shows "snd (snd (add_paper db now p)) = db \<and>
         (fst (add_paper db now p) = Inr (Some (p_id row)) \<or>
          (\<exists>e. fst (add_paper db now p) = Inl e)) \<and>
         (bindable_paper p \<longrightarrow> fst (add_paper db now p) = Inr (Some (p_id row))) \<and>
         (dict_get p ''paper_id'' = None \<and> dict_get p ''source'' = Some (PStr s) \<and>
          dict_get p ''title'' = Some (PStr t) \<longrightarrow> k = PStr (s @ ''_'' @ take 50 t)) \<and>
         (''paper_id'' \<notin> set (dict_keys q) \<and> ''paper_id'' \<notin> set (dict_keys p) \<and>
          dict_get q ''source'' = dict_get p ''source'' \<and>
          dict_get q ''title'' = dict_get p ''title'' \<longrightarrow> external_key q = Inr k)"
proof -
  obtain d where d: "prepare_paper now p = Inr d"
    using prepare_paper_external_key [of now p] assms(2) by auto
  have key: "dict_get d ''paper_id'' = Some k"
    using prepare_paper_fields(1) [OF d] assms(2) by simp
  note ap = add_paper_prepared [OF d]
  note ex = insert_paper_existing [OF assms(1) key assms(3,4)]
  have a: "snd (snd (add_paper db now p)) = db"
    by (simp add: ap ex(1))
  have b: "fst (add_paper db now p) = Inr (Some (p_id row)) \<or>
           (\<exists>e. fst (add_paper db now p) = Inl e)"
    using ex(2) by (simp add: ap)
  have c: "fst (add_paper db now p) = Inr (Some (p_id row))" if bp: "bindable_paper p"
  proof -
    obtain r where "paper_params d = Inr r"
      and "bind_all (paper_param_list r) = Inr (paper_param_list r)"
      using prepared_params [OF bp d] by blast
    then have "\<not> (\<exists>e. fst (insert_paper db d) = Inl e)"
      by (auto simp: insert_paper_def Let_def)
    then show ?thesis
      using ex(2) by (simp add: ap)
  qed
  show ?thesis
    using a b c external_key_format [OF assms(2)] external_key_depends [of q p] assms(2)
    by auto
qed

lemma example_store_keys:
  "map p_paper_id (papers example_store) = [PStr ''Semantic Scholar_Attention Is All You Need'']"
  by (simp add: example_store_def example_paper_def add_paper_def prepare_paper_def
      set_paper_id_def dict_keys_def dict_item_def slice_to_def dump_authors_def
      dict_get_def core_fields_def dict_pop_def insert_paper_def paper_params_def
      sql_bind_def paper_param_list_def papers_violation_def empty_database_def
      next_rowid_def dict_getd_def Let_def py_str_def stored_paper_def sql_text_def)

lemma example_store_inv: "db_inv example_store"
  unfolding example_store_def by (rule add_paper_inv [OF empty_database_inv])

lemma example_paper_key:
  "external_key example_paper = Inr (PStr ''Semantic Scholar_Attention Is All You Need'')"
  by (simp add: external_key_def example_paper_def set_paper_id_def dict_keys_def dict_item_def
      slice_to_def py_str_def)

lemma example_paper_bindable: "bindable_paper example_paper"
  by (simp add: bindable_paper_def example_paper_def field_bindable_def dict_get_def
      bindable_def sql_bind_def)

text \<open>Adding the example paper again to the store that holds it gives row 1 back.\<close>

theorem add_paper_existing_key_witness:
  "fst (add_paper example_store ''2024-01-02 09:00:00'' example_paper) = Inr (Some 1) \<and>
   snd (snd (add_paper example_store ''2024-01-02 09:00:00'' example_paper)) = example_store"
proof -
  let ?row = "hd (papers example_store)"
  have ne: "papers example_store \<noteq> []"
    using example_store_papers by auto
  have r1: "?row \<in> set (papers example_store)"
    using ne by simp
  have r2: "p_paper_id ?row = sql_text (PStr ''Semantic Scholar_Attention Is All You Need'')"
    using example_store_keys ne by (simp add: hd_map [symmetric] sql_text_def)
  have r3: "p_id ?row = 1"
    using example_store_papers ne by (simp add: hd_map [symmetric])
  show ?thesis
    using add_paper_existing_key [OF example_store_inv example_paper_key r1 r2,
        of "''2024-01-02 09:00:00''"] example_paper_bindable r3
    by simp
qed

subsection \<open>Saving a paper for a user\<close>


lemma dumped_not_None: "v \<noteq> PNone \<Longrightarrow> dumped v \<noteq> PNone"
  by (cases v) (auto simp: dumped_def simp del: json_dumps.simps)

lemma dumped_dumped: "dumped (dumped v) = dumped v"
  by (cases v) (auto simp: dumped_def simp del: json_dumps.simps)

lemma dumped_bindable_id: "bindable (dumped v) \<Longrightarrow> (case dumped v of PList xs \<Rightarrow> True | _ \<Rightarrow> bindable (dumped v))"
  by (cases v) (auto simp: dumped_def simp del: json_dumps.simps)

lemma bindable_paper_authors:
  assumes "bindable_paper p"
  shows "\<exists>a. dict_get p ''authors'' = Some a \<and> bindable (dumped a)"
proof -
  obtain a where a: "dict_get p ''authors'' = Some a"
    using assms by (auto simp: bindable_paper_def)
  have "case a of PList xs \<Rightarrow> True | _ \<Rightarrow> bindable a"
    using assms a by (cases a) (auto simp: bindable_paper_def field_bindable_def)
  then show ?thesis
    using a bindable_dumped by blast
qed

lemma prepared_external_key:
  assumes "prepare_paper now p = Inr d"
  shows "external_key d = external_key p"
proof -
  obtain k where k: "external_key p = Inr k"
    using prepare_paper_external_key [of now p] assms by auto
  have g: "dict_get d ''paper_id'' = Some k"
    using prepare_paper_fields(1) [OF assms] k by simp
  then have "''paper_id'' \<in> set (dict_keys d)"
    by (auto simp: dict_get_def dict_keys_def dest: map_of_SomeD intro: rev_image_eqI)
  then show ?thesis
    using g k by (simp add: external_key_def set_paper_id_def dict_item_def dict_get_def)
qed

lemma prepared_bindable:
  assumes "bindable_paper p" and "prepare_paper now p = Inr d"
  shows "bindable_paper d"
proof -
  note f = prepare_paper_fields [OF assms(2)]
  obtain k where k: "external_key p = Inr k"
    using prepare_paper_external_key [of now p] assms(2) by auto
  have bk: "bindable k"
    using external_key_bindable assms(1) k by (auto simp: bindable_paper_def)
  obtain a where a: "dict_get p ''authors'' = Some a" and ba: "bindable (dumped a)"
    using bindable_paper_authors [OF assms(1)] by blast
  show ?thesis
    using assms(1) bk ba k a dumped_bindable_id [OF ba]
    by (auto simp: bindable_paper_def field_bindable_def f split: option.splits pyval.splits)
qed

lemma paper_params_Inr:
  assumes "paper_params d = Inr r"
  shows "dict_get d ''paper_id'' = Some (p_paper_id r) \<and> dict_get d ''title'' = Some (p_title r) \<and>
         dict_get d ''authors'' = Some (p_authors r) \<and>
         dict_get d ''date_added'' = Some (p_date_added r)"
  using assms unfolding paper_params_def dict_item_def
  by (auto simp: dict_get_def split: option.splits)

lemma prepared_storable:
  assumes "storable_paper p" and "prepare_paper now p = Inr d"
  shows "storable_paper d"
proof -
  note f = prepare_paper_fields [OF assms(2)]
  have bp: "bindable_paper p" and t: "dict_get p ''title'' \<noteq> Some PNone"
    and a: "dict_get p ''authors'' \<noteq> Some PNone"
    and k: "case external_key p of Inl e \<Rightarrow> False | Inr k \<Rightarrow> k \<noteq> PNone"
    using assms(1) unfolding storable_paper_def by simp_all
  have a': "dict_get d ''authors'' \<noteq> Some PNone"
  proof (cases "dict_get p ''authors''")
    case None
    then show ?thesis by (simp add: f(2))
  next
    case (Some v)
    then have "v \<noteq> PNone" using a by simp
    then show ?thesis using Some dumped_not_None [of v] by (simp add: f(2))
  qed
  have "bindable_paper d"
    using prepared_bindable [OF bp assms(2)] .
  then show ?thesis
    unfolding storable_paper_def
    using a' t k by (simp add: f(3) prepared_external_key [OF assms(2)])
qed

text \<open>What \<open>add_paper\<close> does with a storable record: it returns the id of the row that
  holds the record's key afterwards.\<close>

lemma add_paper_storable:
  assumes "db_inv db" and "storable_paper p"
  shows "\<exists>pid d db1 k row. add_paper db now p = (Inr (Some pid), d, db1) \<and> 0 < pid \<and>
           prepare_paper now p = Inr d \<and> external_key p = Inr k \<and>
           row \<in> set (papers db1) \<and> p_id row = pid \<and> p_paper_id row = sql_text k \<and>
           users db1 = users db \<and> user_papers db1 = user_papers db \<and>
           user_papers_seq db1 = user_papers_seq db \<and>
           (sql_text k \<in> set (map p_paper_id (papers db)) \<longrightarrow> db1 = db)"
proof -
  obtain k where k: "external_key p = Inr k" and kn: "k \<noteq> PNone"
    using assms(2) by (auto simp: storable_paper_def split: sum.splits)
  obtain d where d: "prepare_paper now p = Inr d"
    using prepare_paper_external_key [of now p] k by auto
  have bp: "bindable_paper p"
    using assms(2) by (simp add: storable_paper_def)
  obtain r where r: "paper_params d = Inr r"
    and b: "bind_all (paper_param_list r) = Inr (paper_param_list r)"
    using prepared_params [OF bp d] by blast
  note f = prepare_paper_fields [OF d]
  note pr = paper_params_Inr [OF r]
  have rk: "p_paper_id r = k"
    using pr f(1) k by simp
  have st: "storable_paper d"
    using prepared_storable [OF assms(2) d] .
  have rt: "p_title r \<noteq> PNone" "p_authors r \<noteq> PNone" "p_date_added r \<noteq> PNone"
    using pr f(9) st unfolding storable_paper_def by auto
  note ap = add_paper_prepared [OF d]
  show ?thesis
  proof (cases "sql_text k \<in> set (map p_paper_id (papers db))")
    case True
    then obtain row where row: "row \<in> set (papers db)" "p_paper_id row = sql_text k"
      by auto
    have sel: "select_paper_id db k = Some (p_id row)"
      using select_paper_id_found [OF assms(1) row] .
    have pos: "0 < p_id row"
      using assms(1) row(1) by (auto simp: db_inv_def list_all_iff)
    have "insert_paper db d = (Inr (Some (p_id row)), db)"
      using r b rk True sel by (simp add: insert_paper_def papers_violation_def)
    then show ?thesis
      using ap d k row pos by auto
  next
    case False
    let ?i = "next_rowid (papers_seq db) (map p_id (papers db))"
    let ?db1 = "db\<lparr>papers := papers db @ [stored_paper ?i r], papers_seq := ?i\<rparr>"
    have ins: "insert_paper db d = (Inr (Some ?i), ?db1)"
      using r b rk False rt kn by (simp add: insert_paper_def papers_violation_def Let_def)
    have pos: "0 < ?i"
      using assms(1) next_rowid_pos by (auto simp: db_inv_def)
    have "stored_paper ?i r \<in> set (papers ?db1)" "p_id (stored_paper ?i r) = ?i"
      "p_paper_id (stored_paper ?i r) = sql_text k"
      using rk by (simp_all add: stored_paper_def)
    then show ?thesis
      using ap d k ins pos False by (intro exI [of _ ?i] exI [of _ d] exI [of _ ?db1] exI [of _ k]
          exI [of _ "stored_paper ?i r"]) simp
  qed
qed


lemma count_distinct_one:
  assumes "distinct (map f xs)" and "a \<in> set (map f xs)"
  shows "length (filter (\<lambda>r. f r = a) xs) = 1"
  using assms
proof (induction xs)
  case Nil
  then show ?case by simp
next
  case (Cons x xs)
  show ?case
  proof (cases "f x = a")
    case True
    then have "a \<notin> set (map f xs)" using Cons.prems(1) by auto
    then have "filter (\<lambda>r. f r = a) xs = []" by (auto simp: filter_empty_conv)
    then show ?thesis using True by simp
  next
    case False
    then show ?thesis using Cons by auto
  qed
qed

lemma count_absent_zero:
  assumes "a \<notin> set (map f xs)"
  shows "length (filter (\<lambda>r. f r = a) xs) = 0"
  using assms by (auto simp: filter_empty_conv)

lemma saved_count_one:
  assumes "db_inv db"
    and "(u, i) \<in> set (map (\<lambda>r. (up_user_id r, up_paper_id r)) (user_papers db))"
  shows "saved_count db u i = 1"
proof -
  have "distinct (map (\<lambda>r. (up_user_id r, up_paper_id r)) (user_papers db))"
    using assms(1) by (simp add: db_inv_def)
  from count_distinct_one [OF this assms(2)] show ?thesis
    by (simp add: saved_count_def)
qed

lemma saved_count_unknown_user:
  assumes "db_inv db" and "u \<notin> set (map u_id (users db))"
  shows "saved_count db u i = 0"
proof -
  have "\<forall>r \<in> set (user_papers db). up_user_id r \<in> set (map u_id (users db))"
    using assms(1) by (simp add: db_inv_def list_all_iff)
  then have "\<forall>r \<in> set (user_papers db). up_user_id r \<noteq> u"
    using assms(2) by auto
  then show ?thesis
    by (auto simp: saved_count_def filter_empty_conv)
qed

text \<open>The association step of \<open>save_paper_for_user\<close>, after \<open>add_paper\<close> gave an id.\<close>

lemma save_paper_for_user_step:
  assumes "add_paper db now_paper p = (Inr (Some pid), d, db1)" and "pid \<noteq> 0"
    and "bindable (PInt user_id)"
  shows "save_paper_for_user db now_paper now_saved user_id p =
           (Inr True, d,
            if user_papers_violation db1 user_id pid then db1
            else db1\<lparr>user_papers := user_papers db1 @
                       [\<lparr>up_id = next_rowid (user_papers_seq db1) (map up_id (user_papers db1)),
                         up_user_id = user_id, up_paper_id = pid,
                         up_date_saved = now_saved, up_notes = PNone\<rparr>],
                     user_papers_seq := next_rowid (user_papers_seq db1) (map up_id (user_papers db1))\<rparr>)"
  using assms by (simp add: save_paper_for_user_def bindable_def Let_def)

text \<open>
  C10. When \<open>add_paper\<close> gave a paper id and the \<open>INSERT\<close> into \<open>user_papers\<close> violates
  a constraint, whichever it is (unknown user, unknown paper, pair already there),
  \<open>save_paper_for_user\<close> returns \<open>True\<close> and writes nothing. In particular, for a user id
  that is in no row of \<open>users\<close>, in a consistent store, the call returns \<open>True\<close> and the
  store holds no association row of that user and the paper afterwards: \<open>True\<close> does not
  tell that the row exists.
\<close>

theorem save_paper_for_user_integrity_error:
  assumes "add_paper db now_paper p = (Inr (Some pid), d, db1)" and "pid \<noteq> 0"
    and "bindable (PInt user_id)"
  shows "(user_papers_violation db1 user_id pid \<longrightarrow>
            save_paper_for_user db now_paper now_saved user_id p = (Inr True, d, db1)) \<and>
         (db_inv db \<and> user_id \<notin> set (map u_id (users db)) \<longrightarrow>
            save_paper_for_user db now_paper now_saved user_id p = (Inr True, d, db1) \<and>
            saved_count db1 user_id pid = 0)"
proof -
  note st = save_paper_for_user_step [OF assms, of now_saved]
  have a: "user_papers_violation db1 user_id pid \<Longrightarrow>
      save_paper_for_user db now_paper now_saved user_id p = (Inr True, d, db1)"
    using st by simp
  have db1: "db1 = snd (snd (add_paper db now_paper p))"
    using assms(1) by simp
  have b: "save_paper_for_user db now_paper now_saved user_id p = (Inr True, d, db1) \<and>
      saved_count db1 user_id pid = 0"
    if inv: "db_inv db" and u: "user_id \<notin> set (map u_id (users db))"
  proof -
    have u1: "user_id \<notin> set (map u_id (users db1))"
      using u add_paper_users [of db now_paper p] db1 by simp
    have inv1: "db_inv db1"
      using add_paper_inv [OF inv, of now_paper p] db1 by simp
    have "user_papers_violation db1 user_id pid"
      using u1 by (simp add: user_papers_violation_def)
    then show ?thesis
      using a saved_count_unknown_user [OF inv1 u1] by simp
  qed
  show ?thesis
    using a b by blast
qed

lemma distinct_map_eq:
  assumes "distinct (map f xs)" and "x \<in> set xs" and "y \<in> set xs" and "f x = f y"
  shows "x = y"
  using assms by (meson distinct_map inj_onD)

text \<open>
  C6 (amended). In a consistent store, for a user id that is in \<open>users\<close> and a record
  \<open>add_paper\<close> can store (no \<open>None\<close> for the title, the authors or the key):
  \<open>save_paper_for_user\<close> returns \<open>True\<close>, and a second call, for the same user and with
  a record \<open>q\<close> of the same external key, returns \<open>True\<close> again and leaves the store as
  the first call left it, with exactly one \<open>user_papers\<close> row of the user and the paper.
  The record as the first call leaves it (\<open>p1\<close>, the same Python object at the second
  call) is such a \<open>q\<close>, and so is an equal copy of \<open>p\<close>.
\<close>

theorem save_paper_for_user_twice:
  assumes "db_inv db" and "storable_paper p" and "storable_paper q"
    and "external_key q = external_key p"
    and "user_id \<in> set (map u_id (users db))" and "bindable (PInt user_id)"
  shows "\<exists>pid p1 db1 q1.
           save_paper_for_user db t1 s1 user_id p = (Inr True, p1, db1) \<and>
           save_paper_for_user db1 t2 s2 user_id q = (Inr True, q1, db1) \<and>
           fst (add_paper db t1 p) = Inr (Some pid) \<and>
           fst (add_paper db1 t2 q) = Inr (Some pid) \<and>
           saved_count db1 user_id pid = 1 \<and>
           storable_paper p1 \<and> external_key p1 = external_key p"
proof -
  obtain pid d dba k row where ap: "add_paper db t1 p = (Inr (Some pid), d, dba)"
    and pos: "0 < pid" and d: "prepare_paper t1 p = Inr d" and k: "external_key p = Inr k"
    and row: "row \<in> set (papers dba)" "p_id row = pid" "p_paper_id row = sql_text k"
    and fr: "users dba = users db" "user_papers dba = user_papers db"
    using add_paper_storable [OF assms(1,2), of t1] by blast
  let ?i = "next_rowid (user_papers_seq dba) (map up_id (user_papers dba))"
  let ?db1 = "if user_papers_violation dba user_id pid then dba
              else dba\<lparr>user_papers := user_papers dba @
                       [\<lparr>up_id = ?i, up_user_id = user_id, up_paper_id = pid,
                         up_date_saved = s1, up_notes = PNone\<rparr>],
                     user_papers_seq := ?i\<rparr>"
  have s1: "save_paper_for_user db t1 s1 user_id p = (Inr True, d, ?db1)"
    using save_paper_for_user_step [OF ap _ assms(6), of s1] pos by simp
  have inv1: "db_inv ?db1"
    using save_paper_for_user_inv [OF assms(1), of t1 s1 user_id p] s1 by simp
  have pap: "papers ?db1 = papers dba" and us: "users ?db1 = users db"
    using fr by simp_all
  have uin: "user_id \<in> set (map u_id (users dba))"
    using assms(5) fr by simp
  have pin: "pid \<in> set (map p_id (papers dba))"
    using row by force
  have pair: "(user_id, pid) \<in> set (map (\<lambda>r. (up_user_id r, up_paper_id r)) (user_papers ?db1))"
    using uin pin by (auto simp: user_papers_violation_def)
  have kin: "sql_text k \<in> set (map p_paper_id (papers ?db1))"
    using row pap by force
  obtain pid2 d2 dbb k2 row2 where ap2: "add_paper ?db1 t2 q = (Inr (Some pid2), d2, dbb)"
    and k2: "external_key q = Inr k2"
    and row2: "row2 \<in> set (papers dbb)" "p_id row2 = pid2" "p_paper_id row2 = sql_text k2"
    and same: "sql_text k2 \<in> set (map p_paper_id (papers ?db1)) \<longrightarrow> dbb = ?db1"
    using add_paper_storable [OF inv1 assms(3), of t2] by blast
  have kk: "k2 = k"
    using k k2 assms(4) by simp
  have dbb: "dbb = ?db1"
    using same kin kk by simp
  have "row2 = row"
  proof (rule distinct_map_eq [of p_paper_id "papers dba"])
    show "distinct (map p_paper_id (papers dba))"
      using inv1 pap by (simp add: db_inv_def)
    show "row2 \<in> set (papers dba)" using row2(1) dbb pap by simp
    show "row \<in> set (papers dba)" using row(1) .
    show "p_paper_id row2 = p_paper_id row" using row2(3) row(3) kk by simp
  qed
  then have pp: "pid2 = pid"
    using row2(2) row(2) by simp
  have viol: "user_papers_violation ?db1 user_id pid"
    using pair unfolding user_papers_violation_def by blast
  have s2: "save_paper_for_user ?db1 t2 s2 user_id q = (Inr True, d2, ?db1)"
    using save_paper_for_user_step [OF ap2 [unfolded dbb pp] _ assms(6), of s2] pos viol
    by simp
  have cnt: "saved_count ?db1 user_id pid = 1"
    using saved_count_one [OF inv1 pair] .
  have st: "storable_paper d" "external_key d = external_key p"
    using prepared_storable [OF assms(2) d] prepared_external_key [OF d] by simp_all
  show ?thesis
    using s1 s2 ap ap2 pp cnt st
    by (intro exI [of _ pid] exI [of _ d] exI [of _ ?db1] exI [of _ d2]) simp
qed


lemma registered_store_inv: "db_inv registered_store"
  by (simp add: db_inv_def registered_store_def empty_database_def)

lemma registered_store_users: "map u_id (users registered_store) = [1]"
  by (simp add: registered_store_def example_user_def)

lemma example_paper_storable: "storable_paper example_paper"
  using example_paper_bindable example_paper_key
  by (simp add: storable_paper_def) (simp add: example_paper_def dict_get_def)

lemma registered_store_add:
  "fst (add_paper registered_store now example_paper) = Inr (Some 1)"
  by (simp add: registered_store_def example_paper_def add_paper_def prepare_paper_def
      set_paper_id_def dict_keys_def dict_item_def slice_to_def dump_authors_def
      dict_get_def core_fields_def dict_pop_def insert_paper_def paper_params_def
      sql_bind_def paper_param_list_def papers_violation_def empty_database_def
      next_rowid_def dict_getd_def Let_def py_str_def stored_paper_def)

lemma bindable_small: "bindable (PInt 1)" "bindable (PInt 7)"
  by (simp_all add: bindable_def sql_bind_def)

text \<open>User 7 is not registered: the save reports success and no row is written for it.\<close>

theorem save_paper_for_user_integrity_error_witness:
  "fst (save_paper_for_user registered_store ''2024-01-02 09:00:00'' ''2024-01-02 09:00:01'' 7
          example_paper) = Inr True \<and>
   saved_count (snd (snd (save_paper_for_user registered_store ''2024-01-02 09:00:00''
          ''2024-01-02 09:00:01'' 7 example_paper))) 7 1 = 0"
proof -
  let ?a = "add_paper registered_store ''2024-01-02 09:00:00'' example_paper"
  have a: "?a = (Inr (Some 1), fst (snd ?a), snd (snd ?a))"
    using registered_store_add [of "''2024-01-02 09:00:00''"] by (metis prod.collapse)
  have u: "(7::int) \<notin> set (map u_id (users registered_store))"
    by (simp add: registered_store_users)
  show ?thesis
    using save_paper_for_user_integrity_error [OF a _ bindable_small(2),
        of "''2024-01-02 09:00:01''"] registered_store_inv u
    by simp
qed

text \<open>User 1 saves the example paper twice: one row, both calls succeed.\<close>

theorem save_paper_for_user_twice_witness:
  "\<exists>p1 db1 q1.
     save_paper_for_user registered_store ''2024-01-02 09:00:00'' ''2024-01-02 09:00:01'' 1
       example_paper = (Inr True, p1, db1) \<and>
     save_paper_for_user db1 ''2024-01-03 09:00:00'' ''2024-01-03 09:00:01'' 1
       example_paper = (Inr True, q1, db1) \<and>
     saved_count db1 1 1 = 1"
proof -
  have u: "(1::int) \<in> set (map u_id (users registered_store))"
    by (simp add: registered_store_users)
  obtain pid p1 db1 q1 where
    s: "save_paper_for_user registered_store ''2024-01-02 09:00:00'' ''2024-01-02 09:00:01'' 1
          example_paper = (Inr True, p1, db1)"
      "save_paper_for_user db1 ''2024-01-03 09:00:00'' ''2024-01-03 09:00:01'' 1
          example_paper = (Inr True, q1, db1)"
      "fst (add_paper registered_store ''2024-01-02 09:00:00'' example_paper) = Inr (Some pid)"
      "saved_count db1 1 pid = 1"
    using save_paper_for_user_twice [OF registered_store_inv example_paper_storable
        example_paper_storable refl u bindable_small(1),
        of "''2024-01-02 09:00:00''" "''2024-01-02 09:00:01''" "''2024-01-03 09:00:00''"
           "''2024-01-03 09:00:01''"]
    by blast
  have "pid = 1"
    using s(3) registered_store_add [of "''2024-01-02 09:00:00''"] by simp
  then show ?thesis
    using s by blast
qed

lemma save_paper_for_user_unknown_user:
  assumes "db_inv db" and "storable_paper p" and "bindable (PInt u)"
    and "u \<notin> set (map u_id (users db))"
  shows "\<exists>p1 db1. save_paper_for_user db t s u p = (Inr True, p1, db1) \<and>
           db_inv db1 \<and> users db1 = users db \<and> storable_paper p1 \<and>
           (\<forall>i. saved_count db1 u i = 0)"
proof -
  obtain pid d dba k row where ap: "add_paper db t p = (Inr (Some pid), d, dba)"
    and pos: "0 < pid" and d: "prepare_paper t p = Inr d"
    and fr: "users dba = users db"
    using add_paper_storable [OF assms(1,2), of t] by blast
  have dba: "dba = snd (snd (add_paper db t p))"
    using ap by simp
  have inv: "db_inv dba"
    using add_paper_inv [OF assms(1), of t p] dba by simp
  have u: "u \<notin> set (map u_id (users dba))"
    using assms(4) fr by simp
  then have "user_papers_violation dba u pid"
    by (simp add: user_papers_violation_def)
  then have "save_paper_for_user db t s u p = (Inr True, d, dba)"
    using save_paper_for_user_step [OF ap _ assms(3), of s] pos by simp
  moreover have "\<forall>i. saved_count dba u i = 0"
    using saved_count_unknown_user [OF inv u] by simp
  ultimately show ?thesis
    using inv fr prepared_storable [OF assms(2) d] by blast
qed

text \<open>
  C6 (the claim as it stands fails). User 7 is in no row of \<open>users\<close>: saving the example
  paper twice for it, the second time with the record as the first call left it,
  returns \<open>True\<close> both times, and no \<open>user_papers\<close> row of the user and the paper
  (row 1 of \<open>papers\<close>) exists afterwards.
\<close>

theorem save_paper_for_user_unregistered_twice:
  "fst (save_paper_for_user registered_store ''2024-01-02 09:00:00'' ''2024-01-02 09:00:01'' 7
          example_paper) = Inr True \<and>
   fst (save_paper_for_user
          (snd (snd (save_paper_for_user registered_store ''2024-01-02 09:00:00''
             ''2024-01-02 09:00:01'' 7 example_paper)))
          ''2024-01-03 09:00:00'' ''2024-01-03 09:00:01'' 7
          (fst (snd (save_paper_for_user registered_store ''2024-01-02 09:00:00''
             ''2024-01-02 09:00:01'' 7 example_paper)))) = Inr True \<and>
   fst (add_paper registered_store ''2024-01-02 09:00:00'' example_paper) = Inr (Some 1) \<and>
   saved_count
     (snd (snd (save_paper_for_user
          (snd (snd (save_paper_for_user registered_store ''2024-01-02 09:00:00''
             ''2024-01-02 09:00:01'' 7 example_paper)))
          ''2024-01-03 09:00:00'' ''2024-01-03 09:00:01'' 7
          (fst (snd (save_paper_for_user registered_store ''2024-01-02 09:00:00''
             ''2024-01-02 09:00:01'' 7 example_paper)))))) 7 1 = 0"
proof -
  have u: "(7::int) \<notin> set (map u_id (users registered_store))"
    by (simp add: registered_store_users)
  obtain p1 db1 where
    a: "save_paper_for_user registered_store ''2024-01-02 09:00:00'' ''2024-01-02 09:00:01'' 7
          example_paper = (Inr True, p1, db1)"
      "db_inv db1" "users db1 = users registered_store" "storable_paper p1"
    using save_paper_for_user_unknown_user [OF registered_store_inv example_paper_storable
        bindable_small(2) u] by blast
  have u1: "(7::int) \<notin> set (map u_id (users db1))"
    using u a(3) by simp
  obtain p2 db2 where
    b: "save_paper_for_user db1 ''2024-01-03 09:00:00'' ''2024-01-03 09:00:01'' 7 p1 =
          (Inr True, p2, db2)"
      "\<forall>i. saved_count db2 7 i = 0"
    using save_paper_for_user_unknown_user [OF a(2) a(4) bindable_small(2) u1] by blast
  show ?thesis
    using a(1) b registered_store_add [of "''2024-01-02 09:00:00''"] by simp
qed

subsection \<open>The record \<open>add_paper\<close> leaves to its caller\<close>

lemma add_paper_record:
  "fst (snd (add_paper db now p)) = (case prepare_paper now p of Inl e \<Rightarrow> p | Inr d \<Rightarrow> d)"
  by (simp add: add_paper_def split: sum.splits)

lemma dict_set_keys_distinct: "distinct (map fst d) \<Longrightarrow> distinct (map fst (dict_set d k v))"
  by (induction d k v rule: dict_set.induct) (auto simp: keys_dict_set)

lemma filter_dict_set_core:
  "k \<in> set core_fields \<Longrightarrow>
   filter (\<lambda>kv. fst kv \<notin> set core_fields) (dict_set d k v) =
   filter (\<lambda>kv. fst kv \<notin> set core_fields) d"
  by (induction d k v rule: dict_set.induct) auto

lemma dump_authors_noncore:
  "filter (\<lambda>kv. fst kv \<notin> set core_fields) (dump_authors d) =
   filter (\<lambda>kv. fst kv \<notin> set core_fields) d"
  by (simp add: dump_authors_def filter_dict_set_core split: option.splits pyval.splits
      del: json_dumps.simps)

lemma dump_authors_distinct: "distinct (map fst d) \<Longrightarrow> distinct (map fst (dump_authors d))"
  by (simp add: dump_authors_def dict_set_keys_distinct split: option.splits pyval.splits
      del: json_dumps.simps)

lemma set_paper_id_noncore:
  assumes "set_paper_id p = Inr d1"
  shows "filter (\<lambda>kv. fst kv \<notin> set core_fields) d1 = filter (\<lambda>kv. fst kv \<notin> set core_fields) p"
    and "distinct (map fst p) \<Longrightarrow> distinct (map fst d1)"
  using assms
  by (auto simp: set_paper_id_def filter_dict_set_core dict_set_keys_distinct
      split: if_splits sum.splits)

lemma prepare_paper_metadata:
  assumes "prepare_paper now p = Inr d" and "distinct (map fst p)"
  shows "dict_get d ''metadata'' =
           Some (PStr (json_dumps (PDict (filter (\<lambda>kv. fst kv \<notin> set core_fields) p))))"
proof -
  obtain d1 where d1: "set_paper_id p = Inr d1"
    using prepare_paper_Inr [OF assms(1)] by blast
  let ?d2 = "dump_authors d1"
  have dist: "distinct (map fst ?d2)"
    using dump_authors_distinct set_paper_id_noncore(2) [OF d1 assms(2)] by blast
  have "snd (extract_metadata ?d2 ?d2 []) = filter (\<lambda>kv. fst kv \<notin> set core_fields) ?d2"
    using snd_extract_metadata [OF dist, of "[]" ?d2] by simp
  also have "\<dots> = filter (\<lambda>kv. fst kv \<notin> set core_fields) p"
    by (simp only: dump_authors_noncore set_paper_id_noncore(1) [OF d1])
  finally have m: "snd (extract_metadata ?d2 ?d2 []) = filter (\<lambda>kv. fst kv \<notin> set core_fields) p" .
  show ?thesis
    using prepare_paper_get [OF assms(1), of "''metadata''"] d1 m
    by (simp del: json_dumps.simps)
qed

lemma prepare_paper_noncore:
  assumes "prepare_paper now p = Inr d"
    and "k \<notin> set core_fields" and "k \<noteq> ''metadata''" and "k \<noteq> ''date_added''"
  shows "dict_get d k = None"
  using prepare_paper_get [OF assms(1), of k] assms(2-4) by (simp del: json_dumps.simps)

subsection \<open>The records of a search\<close>

lemma add_papers_records:
  assumes "add_papers db nows i ps = (Inr ps1, db1)"
  shows "length ps1 = length ps \<and>
         (\<forall>j < length ps. ps1 ! j = fst (snd (add_paper db' (nows (i + j)) (ps ! j))))"
  using assms
proof (induction ps arbitrary: db i ps1)
  case Nil
  then show ?case by simp
next
  case (Cons p ps)
  obtain r p1 dba where a: "add_paper db (nows i) p = (Inr r, p1, dba)"
    using Cons.prems by (auto split: prod.splits sum.splits)
  obtain ps2 where b: "add_papers dba nows (Suc i) ps = (Inr ps2, db1)" and c: "ps1 = p1 # ps2"
    using Cons.prems a by (auto split: prod.splits sum.splits)
  have p1: "p1 = fst (snd (add_paper db' (nows i) p))"
    using a add_paper_record [of db "nows i" p] add_paper_record [of db' "nows i" p] by simp
  note ih = Cons.IH [OF b]
  show ?case
  proof (intro conjI allI impI)
    show "length ps1 = length (p # ps)" using ih c by simp
  next
    fix j assume j: "j < length (p # ps)"
    show "ps1 ! j = fst (snd (add_paper db' (nows (i + j)) ((p # ps) ! j)))"
    proof (cases j)
      case 0
      then show ?thesis using c p1 by simp
    next
      case (Suc j')
      then show ?thesis using c ih j by simp
    qed
  qed
qed

lemma int_keys_length: "int_keys field ps = Some ks \<Longrightarrow> length ks = length ps"
  by (induction ps arbitrary: ks) (auto split: pyval.splits)

lemma sort_papers_set: "sort_papers sort_by ps = Inr ordered \<Longrightarrow> set ordered = set ps"
proof -
  have "set (map snd (sort_key f (zip ks ps))) = set ps" if "length ks = length ps" for f :: "int \<times> pydict \<Rightarrow> int" and ks
  proof -
    have "set (map snd (sort_key f (zip ks ps))) = snd ` set (zip ks ps)"
      by simp
    also have "\<dots> = set (map snd (zip ks ps))"
      by simp
    also have "\<dots> = set ps"
      using that by (simp only: map_snd_zip)
    finally show ?thesis .
  qed
  then show "sort_papers sort_by ps = Inr ordered \<Longrightarrow> set ordered = set ps"
    by (auto simp: sort_papers_def sort_desc_def dest!: int_keys_length
        split: if_splits option.splits)
qed

lemma map_of_cache_set: "map_of (cache_set c k v) k = Some v"
  by (induction c k v rule: cache_set.induct) auto

lemma py_take_set: "set (py_take n xs) \<subseteq> set xs"
  by (auto simp: py_take_def dest: in_set_takeD)

lemma fetch_research_papers_miss:
  assumes "map_of (paper_search_cache st) (search_key query source year_range sort_by) = None"
    and "fetch_research_papers st nows query source year_range sort_by max_results = (Inr rs, st1)"
  shows "\<exists>fetched db1 cached.
           add_papers (ms_db st) nows 0
             (query_sources (sources_to_query source) query year_range max_results) = (Inr fetched, db1) \<and>
           sort_papers sort_by fetched = Inr cached \<and> rs = py_take max_results cached \<and>
           map_of (paper_search_cache st1) (search_key query source year_range sort_by) = Some cached"
  using assms
  by (auto simp: fetch_research_papers_def Let_def map_of_cache_set
      split: prod.splits sum.splits)


text \<open>
  C9. \<open>add_paper\<close> leaves the caller's record changed. A record that lines 179-180
  accept (it has a \<open>paper_id\<close>, or a \<open>source\<close> and a title that can be sliced), with the
  distinct keys of a Python dictionary, comes back with an authors list replaced by its
  JSON text, no key other than the core fields, \<open>metadata\<close> and \<open>date_added\<close>, the
  entries of the other keys serialised under \<open>metadata\<close>, and the clock reading under
  \<open>date_added\<close>, whatever the \<open>INSERT\<close> then does. A search that is not served from the
  cache caches, and returns a prefix of, a list made of the records of the sources as
  \<open>add_paper\<close> left them.
\<close>

theorem add_paper_mutates_record:
  assumes "external_key p = Inr key" and "distinct (dict_keys p)"
  shows "(\<forall>xs. dict_get p ''authors'' = Some (PList xs) \<longrightarrow>
            dict_get (fst (snd (add_paper db now p))) ''authors'' =
              Some (PStr (json_dumps (PList xs)))) \<and>
         (\<forall>k. k \<notin> set core_fields \<and> k \<noteq> ''metadata'' \<and> k \<noteq> ''date_added'' \<longrightarrow>
            dict_get (fst (snd (add_paper db now p))) k = None) \<and>
         dict_get (fst (snd (add_paper db now p))) ''metadata'' =
           Some (PStr (json_dumps (PDict (filter (\<lambda>kv. fst kv \<notin> set core_fields) p)))) \<and>
         dict_get (fst (snd (add_paper db now p))) ''date_added'' = Some (PStr now) \<and>
         (map_of (paper_search_cache st) (search_key query source year_range sort_by) = None \<and>
          fetch_research_papers st nows query source year_range sort_by max_results = (Inr rs, st1) \<longrightarrow>
            (\<exists>cached.
               map_of (paper_search_cache st1) (search_key query source year_range sort_by) =
                 Some cached \<and>
               rs = py_take max_results cached \<and>
               (\<forall>r \<in> set cached.
                  \<exists>j < length (query_sources (sources_to_query source) query year_range max_results).
                    r = fst (snd (add_paper db' (nows j)
                          (query_sources (sources_to_query source) query year_range max_results ! j))))))"
proof -
  obtain d where d: "prepare_paper now p = Inr d"
    using prepare_paper_external_key [of now p] assms(1) by auto
  have rec: "fst (snd (add_paper db now p)) = d"
    using d by (simp add: add_paper_record)
  note f = prepare_paper_fields [OF d]
  have a: "dict_get d ''authors'' = Some (PStr (json_dumps (PList xs)))"
    if "dict_get p ''authors'' = Some (PList xs)" for xs
    using that by (simp add: f(2) dumped_def del: json_dumps.simps)
  have b: "dict_get d k = None"
    if "k \<notin> set core_fields \<and> k \<noteq> ''metadata'' \<and> k \<noteq> ''date_added''" for k
    using prepare_paper_noncore [OF d, of k] that by simp
  have c: "dict_get d ''metadata'' =
      Some (PStr (json_dumps (PDict (filter (\<lambda>kv. fst kv \<notin> set core_fields) p))))"
    using prepare_paper_metadata [OF d] assms(2) by (simp add: dict_keys_def del: json_dumps.simps)
  let ?raw = "query_sources (sources_to_query source) query year_range max_results"
  let ?key = "search_key query source year_range sort_by"
  have e: "\<exists>cached. map_of (paper_search_cache st1) ?key = Some cached \<and>
      rs = py_take max_results cached \<and>
      (\<forall>r \<in> set cached. \<exists>j < length ?raw. r = fst (snd (add_paper db' (nows j) (?raw ! j))))"
    if miss: "map_of (paper_search_cache st) ?key = None"
      and res: "fetch_research_papers st nows query source year_range sort_by max_results = (Inr rs, st1)"
  proof -
    obtain fetched db1 cached where
      ap: "add_papers (ms_db st) nows 0 ?raw = (Inr fetched, db1)"
      and so: "sort_papers sort_by fetched = Inr cached"
      and rs: "rs = py_take max_results cached"
      and ca: "map_of (paper_search_cache st1) ?key = Some cached"
      using fetch_research_papers_miss [OF miss res] by blast
    note r = add_papers_records [OF ap, of db']
    have "\<exists>j < length ?raw. x = fst (snd (add_paper db' (nows j) (?raw ! j)))"
      if "x \<in> set cached" for x
    proof -
      have "x \<in> set fetched"
        using that sort_papers_set [OF so] by simp
      then obtain j where "j < length fetched" "x = fetched ! j"
        by (auto simp: in_set_conv_nth)
      then show ?thesis
        using r by auto
    qed
    then show ?thesis
      using ca rs by blast
  qed
  show ?thesis
    unfolding rec
  proof (intro conjI allI impI)
    fix xs assume "dict_get p ''authors'' = Some (PList xs)"
    then show "dict_get d ''authors'' = Some (PStr (json_dumps (PList xs)))" by (rule a)
  next
    fix k assume "k \<notin> set core_fields \<and> k \<noteq> ''metadata'' \<and> k \<noteq> ''date_added''"
    then show "dict_get d k = None" by (rule b)
  next
    show "dict_get d ''metadata'' =
      Some (PStr (json_dumps (PDict (filter (\<lambda>kv. fst kv \<notin> set core_fields) p))))" by (rule c)
  next
    show "dict_get d ''date_added'' = Some (PStr now)" by (rule f(9))
  next
    assume "map_of (paper_search_cache st) ?key = None \<and>
      fetch_research_papers st nows query source year_range sort_by max_results = (Inr rs, st1)"
    then show "\<exists>cached. map_of (paper_search_cache st1) ?key = Some cached \<and>
      rs = py_take max_results cached \<and>
      (\<forall>r \<in> set cached. \<exists>j < length ?raw. r = fst (snd (add_paper db' (nows j) (?raw ! j))))"
      using e by (elim conjE)
  qed
qed

lemma add_paper_bindable_Inr:
  assumes "bindable_paper p" and "external_key p = Inr k"
  shows "\<exists>r. fst (add_paper db now p) = Inr r"
proof -
  obtain d where d: "prepare_paper now p = Inr d"
    using prepare_paper_external_key [of now p] assms(2) by auto
  obtain r where r: "paper_params d = Inr r"
    and b: "bind_all (paper_param_list r) = Inr (paper_param_list r)"
    using prepared_params [OF assms(1) d] by blast
  show ?thesis
    using r b by (simp add: add_paper_prepared [OF d] insert_paper_def Let_def)
qed

lemma add_papers_bindable:
  assumes "list_all (\<lambda>p. bindable_paper p \<and> (\<exists>k. external_key p = Inr k)) ps"
  shows "\<exists>ps1 db1. add_papers db nows i ps = (Inr ps1, db1)"
  using assms
proof (induction ps arbitrary: db i)
  case Nil
  then show ?case by simp
next
  case (Cons p ps)
  have bp: "bindable_paper p" and ek: "\<exists>k. external_key p = Inr k"
    using Cons.prems by simp_all
  obtain k where k: "external_key p = Inr k"
    using ek by blast
  obtain r where r: "fst (add_paper db (nows i) p) = Inr r"
    using add_paper_bindable_Inr [OF bp k, of db "nows i"] by blast
  obtain p1 dba where a: "add_paper db (nows i) p = (Inr r, p1, dba)"
    using r by (metis prod.collapse)
  obtain ps1 db1 where "add_papers dba nows (Suc i) ps = (Inr ps1, db1)"
    using Cons.IH [of dba "Suc i"] Cons.prems by auto
  then show ?case
    using a by simp
qed


lemma sort_papers_length: "sort_papers sort_by ps = Inr ordered \<Longrightarrow> length ordered = length ps"
  by (auto simp: sort_papers_def sort_desc_def dest!: int_keys_length
      split: if_splits option.splits)

lemma fetch_research_papers_hit:
  assumes "map_of (paper_search_cache st) (search_key query source year_range sort_by) = Some cached"
  shows "fetch_research_papers st nows query source year_range sort_by max_results = (Inr cached, st)"
  using assms by (simp add: fetch_research_papers_def)

lemma fetch_research_papers_miss_calls:
  assumes "map_of (paper_search_cache st) (search_key query source year_range sort_by) = None"
    and "fetch_research_papers st nows query source year_range sort_by max_results = (r, st1)"
  shows "source_calls st1 = source_calls st + sources_called (sources_to_query source)"
  using assms
  by (auto simp: fetch_research_papers_def Let_def split: prod.splits sum.splits)

lemma fetch_research_papers_relevance:
  assumes "map_of (paper_search_cache st) (search_key query source year_range ''relevance'') = None"
    and "list_all (\<lambda>p. bindable_paper p \<and> (\<exists>k. external_key p = Inr k))
           (query_sources (sources_to_query source) query year_range max_results)"
  shows "\<exists>rs st1. fetch_research_papers st nows query source year_range ''relevance'' max_results =
           (Inr rs, st1)"
proof -
  obtain ps1 db1 where
    "add_papers (ms_db st) nows 0
       (query_sources (sources_to_query source) query year_range max_results) = (Inr ps1, db1)"
    using add_papers_bindable [OF assms(2)] by blast
  then show ?thesis
    using assms(1) by (simp add: fetch_research_papers_def Let_def sort_papers_def)
qed

lemma sample_records_bindable:
  "list_all (\<lambda>p. bindable_paper p \<and> (\<exists>k. external_key p = Inr k))
     (query_sources srcs query year_range max_results)"
  by (simp add: query_sources_def fetch_from_semantic_scholar_def fetch_from_arxiv_def
      fetch_from_pubmed_def bindable_paper_def field_bindable_def dict_get_def bindable_def
      sql_bind_def external_key_def set_paper_id_def dict_keys_def dict_item_def slice_to_def
      map_of_dict_set)

lemma all_sources_length:
  "length (query_sources (sources_to_query None) query year_range max_results) = 6"
  by (simp add: query_sources_def sources_to_query_def fetch_from_semantic_scholar_def
      fetch_from_arxiv_def fetch_from_pubmed_def)

lemma all_sources_called: "sources_called (sources_to_query None) = 3"
  by (simp add: sources_called_def sources_to_query_def)

lemma empty_manager_cache: "map_of (paper_search_cache empty_manager) k = None"
  by (simp add: empty_manager_def)


text \<open>
  The first sample record of Semantic Scholar, added to the empty store, and the search
  for \<open>ml\<close> in all sources from a new session.
\<close>

theorem add_paper_mutates_record_witness:
  "dict_get (fst (snd (add_paper empty_database ''2024-01-01 10:00:00''
       (hd (fetch_from_semantic_scholar ''ml'' (1900, 2023) 1))))) ''authors'' =
     Some (PStr (json_dumps
       (PList [PStr ''Ashish Vaswani'', PStr ''Noam Shazeer'', PStr ''Niki Parmar'']))) \<and>
   dict_get (fst (snd (add_paper empty_database ''2024-01-01 10:00:00''
       (hd (fetch_from_semantic_scholar ''ml'' (1900, 2023) 1))))) ''id'' = None \<and>
   dict_get (fst (snd (add_paper empty_database ''2024-01-01 10:00:00''
       (hd (fetch_from_semantic_scholar ''ml'' (1900, 2023) 1))))) ''metadata'' =
     Some (PStr (json_dumps (PDict [(''id'', PStr ''sem1'')]))) \<and>
   dict_get (fst (snd (add_paper empty_database ''2024-01-01 10:00:00''
       (hd (fetch_from_semantic_scholar ''ml'' (1900, 2023) 1))))) ''date_added'' =
     Some (PStr ''2024-01-01 10:00:00'') \<and>
   (\<exists>rs st1 cached.
      fetch_research_papers empty_manager example_clock ''ml'' None (1900, 2023) ''relevance'' 1 =
        (Inr rs, st1) \<and>
      map_of (paper_search_cache st1) (search_key ''ml'' None (1900, 2023) ''relevance'') =
        Some cached \<and>
      rs = py_take 1 cached \<and>
      hd cached = fst (snd (add_paper empty_database ''2024-01-01 10:00:00''
        (hd (fetch_from_semantic_scholar ''ml'' (1900, 2023) 1)))))"
proof -
  let ?p = "hd (fetch_from_semantic_scholar ''ml'' (1900, 2023) 1)"
  let ?raw = "query_sources (sources_to_query None) ''ml'' (1900, 2023) 1"
  have k: "external_key ?p = Inr (PStr ''Semantic Scholar_Attention Is All You Need'')"
    by (simp add: fetch_from_semantic_scholar_def external_key_def set_paper_id_def
        dict_keys_def dict_item_def slice_to_def py_str_def)
  have dk: "distinct (dict_keys ?p)"
    by (simp add: fetch_from_semantic_scholar_def dict_keys_def)
  have au: "dict_get ?p ''authors'' =
      Some (PList [PStr ''Ashish Vaswani'', PStr ''Noam Shazeer'', PStr ''Niki Parmar''])"
    by (simp add: fetch_from_semantic_scholar_def dict_get_def)
  have md: "filter (\<lambda>kv. fst kv \<notin> set core_fields) ?p = [(''id'', PStr ''sem1'')]"
    by (simp add: fetch_from_semantic_scholar_def core_fields_def)
  have idk: "''id'' \<notin> set core_fields \<and> ''id'' \<noteq> ''metadata'' \<and> ''id'' \<noteq> ''date_added''"
    by (simp add: core_fields_def)
  obtain rs st1 where
    f: "fetch_research_papers empty_manager example_clock ''ml'' None (1900, 2023) ''relevance'' 1 =
          (Inr rs, st1)"
    using fetch_research_papers_relevance [OF empty_manager_cache sample_records_bindable]
    by blast
  note t = add_paper_mutates_record [OF k dk, of empty_database "''2024-01-01 10:00:00''"
      empty_manager "''ml''" None "(1900, 2023)" "''relevance''" example_clock 1 rs st1
      empty_database]
  obtain cached where
    c: "map_of (paper_search_cache st1) (search_key ''ml'' None (1900, 2023) ''relevance'') =
          Some cached"
      "rs = py_take 1 cached"
      "\<forall>r \<in> set cached. \<exists>j < length ?raw.
         r = fst (snd (add_paper empty_database (example_clock j) (?raw ! j)))"
    using t f empty_manager_cache by blast
  obtain fetched db1 sorted' where
    ap: "add_papers (ms_db empty_manager) example_clock 0 ?raw = (Inr fetched, db1)"
    and so: "sort_papers ''relevance'' fetched = Inr sorted'"
    and ca: "map_of (paper_search_cache st1) (search_key ''ml'' None (1900, 2023) ''relevance'') =
          Some sorted'"
    using fetch_research_papers_miss [OF empty_manager_cache f] by blast
  have cf: "cached = fetched"
    using so ca c(1) by (simp add: sort_papers_def)
  have l: "0 < length ?raw"
    by (simp add: all_sources_length)
  have n0: "fetched ! 0 = fst (snd (add_paper empty_database (example_clock 0) (?raw ! 0)))"
    and lf: "length fetched = length ?raw"
    using add_papers_records [OF ap, of empty_database] l by auto
  have r0: "?raw ! 0 = ?p"
    by (simp add: query_sources_def sources_to_query_def fetch_from_semantic_scholar_def)
  have "fetched \<noteq> []"
    using lf l by auto
  then have "hd fetched = fetched ! 0"
    by (rule hd_conv_nth)
  then have h: "hd cached = fst (snd (add_paper empty_database ''2024-01-01 10:00:00'' ?p))"
    using cf n0 r0 by (simp add: example_clock_def)
  have "dict_get (fst (snd (add_paper empty_database ''2024-01-01 10:00:00'' ?p))) ''authors'' =
     Some (PStr (json_dumps
       (PList [PStr ''Ashish Vaswani'', PStr ''Noam Shazeer'', PStr ''Niki Parmar'']))) \<and>
   dict_get (fst (snd (add_paper empty_database ''2024-01-01 10:00:00'' ?p))) ''id'' = None \<and>
   dict_get (fst (snd (add_paper empty_database ''2024-01-01 10:00:00'' ?p))) ''metadata'' =
     Some (PStr (json_dumps (PDict [(''id'', PStr ''sem1'')]))) \<and>
   dict_get (fst (snd (add_paper empty_database ''2024-01-01 10:00:00'' ?p))) ''date_added'' =
     Some (PStr ''2024-01-01 10:00:00'')"
    using t au idk unfolding md by blast
  then show ?thesis
    using f c(1,2) h by blast
qed

text \<open>
  C2 (the code departs from the claim). The claim: every search returns at most
  \<open>max_results\<close> records, also when it is served from the cache. The code: the first
  search caches the whole list and returns its first \<open>max_results\<close> records; a repeated
  search returns the cached list at line 61, before the slice of line 105, without
  querying a source. So the repeated search returns every record the sources gave,
  however small \<open>max_results\<close> is.
\<close>

theorem fetch_research_papers_cached_untruncated:
  assumes "map_of (paper_search_cache st) (search_key query source year_range sort_by) = None"
    and "fetch_research_papers st nows query source year_range sort_by max_results = (Inr rs, st1)"
  shows "\<exists>cached.
           fetch_research_papers st1 nows' query source year_range sort_by max_results' =
             (Inr cached, st1) \<and>
           rs = py_take max_results cached \<and>
           length cached =
             length (query_sources (sources_to_query source) query year_range max_results) \<and>
           source_calls st1 = source_calls st + sources_called (sources_to_query source)"
proof -
  obtain fetched db1 cached where
    ap: "add_papers (ms_db st) nows 0
           (query_sources (sources_to_query source) query year_range max_results) = (Inr fetched, db1)"
    and so: "sort_papers sort_by fetched = Inr cached"
    and rs: "rs = py_take max_results cached"
    and ca: "map_of (paper_search_cache st1) (search_key query source year_range sort_by) = Some cached"
    using fetch_research_papers_miss [OF assms] by blast
  have "length cached =
      length (query_sources (sources_to_query source) query year_range max_results)"
    using sort_papers_length [OF so] add_papers_records [OF ap] by simp
  then show ?thesis
    using fetch_research_papers_hit [OF ca] rs fetch_research_papers_miss_calls [OF assms]
    by blast
qed

text \<open>
  The search for \<open>ml\<close> in all sources with \<open>max_results = 1\<close>, from a new session: one
  record the first time, six the second time, three source calls in all.
\<close>

theorem fetch_research_papers_cached_untruncated_witness:
  "\<exists>rs st1 cached.
     fetch_research_papers empty_manager example_clock ''ml'' None (1900, 2023) ''relevance'' 1 =
       (Inr rs, st1) \<and> length rs = 1 \<and> source_calls st1 = 3 \<and>
     fetch_research_papers st1 example_clock ''ml'' None (1900, 2023) ''relevance'' 1 =
       (Inr cached, st1) \<and> length cached = 6"
proof -
  obtain rs st1 where
    f: "fetch_research_papers empty_manager example_clock ''ml'' None (1900, 2023) ''relevance'' 1 =
          (Inr rs, st1)"
    using fetch_research_papers_relevance [OF empty_manager_cache sample_records_bindable]
    by blast
  obtain cached where
    c: "fetch_research_papers st1 example_clock ''ml'' None (1900, 2023) ''relevance'' 1 =
          (Inr cached, st1)"
      "rs = py_take 1 cached" "length cached = 6"
      "source_calls st1 = source_calls empty_manager + 3"
    using fetch_research_papers_cached_untruncated [OF empty_manager_cache f, of example_clock 1]
    by (auto simp: all_sources_length all_sources_called)
  have "length rs = 1"
    using c(2,3) by (simp add: py_take_def)
  moreover have "source_calls st1 = 3"
    using c(4) by (simp add: empty_manager_def)
  ultimately show ?thesis
    using f c(1,3) by blast
qed

subsection \<open>The analysis generator\<close>

lemma add_paper_analysis_rows:
  "paper_analysis (snd (snd (add_paper db now p))) = paper_analysis db \<and>
   paper_analysis_seq (snd (snd (add_paper db now p))) = paper_analysis_seq db"
  by (auto simp: add_paper_def insert_paper_def Let_def split: sum.splits)

lemma find_snoc:
  "find P (xs @ [x]) = (case find P xs of Some y \<Rightarrow> Some y | None \<Rightarrow> if P x then Some x else None)"
  by (induction xs) auto

lemma analysis_dict_nonempty: "analysis_dict r \<noteq> []"
  by (simp add: analysis_dict_def)

lemma get_paper_analysis_nonempty: "get_paper_analysis db i \<noteq> Inr (Some [])"
  by (auto simp: get_paper_analysis_def analysis_dict_def split: sum.splits)

text \<open>A call that finds an analysis of the paper returns it and writes nothing.\<close>

lemma analyze_paper_stored:
  assumes "add_paper db t p = (Inr (Some pid), p1, db1)" and "pid \<noteq> 0"
    and "get_paper_analysis db1 pid = Inr (Some a)"
  shows "analyze_paper db t n p = (a, p1, db1)"
proof -
  have "a \<noteq> []"
    using assms(3) get_paper_analysis_nonempty [of db1 pid] by auto
  then show ?thesis
    using assms by (simp add: analyze_paper_def analyze_paper_body_def)
qed

lemma synthesize_Inr:
  assumes "synthesize p = Inr a"
  shows "\<exists>s. a = [(''summary'', PStr s), (''key_findings'', synth_key_findings),
                  (''methodology'', synth_methodology), (''implications'', synth_implications)]"
  using assms by (auto simp: synthesize_def split: sum.splits)

text \<open>A call that finds no analysis of the paper returns the synthesized document and
  stores it in a new row.\<close>

lemma analyze_paper_fresh:
  assumes "add_paper db t p = (Inr (Some pid), p1, db1)" and "pid \<noteq> 0"
    and "bindable (PInt pid)" and "pid \<in> set (map p_id (papers db1))"
    and "find (\<lambda>r. a_paper_id r = pid) (paper_analysis db1) = None"
    and "synthesize p1 = Inr a"
  shows "\<exists>row. analyze_paper db t n p =
           (a, p1, db1\<lparr>paper_analysis := paper_analysis db1 @ [row],
                       paper_analysis_seq := a_id row\<rparr>) \<and>
         analysis_dict row =
           [(''id'', PInt (a_id row)), (''paper_id'', PInt pid)] @ a @
           [(''date_analyzed'', PStr n)] \<and>
         get_paper_analysis (db1\<lparr>paper_analysis := paper_analysis db1 @ [row],
                       paper_analysis_seq := a_id row\<rparr>) pid = Inr (Some (analysis_dict row))"
proof -
  obtain s where a: "a = [(''summary'', PStr s), (''key_findings'', synth_key_findings),
                  (''methodology'', synth_methodology), (''implications'', synth_implications)]"
    using synthesize_Inr [OF assms(6)] by blast
  let ?i = "next_rowid (paper_analysis_seq db1) (map a_id (paper_analysis db1))"
  let ?row = "\<lparr>a_id = ?i, a_paper_id = pid, a_summary = PStr s,
               a_key_findings = synth_key_findings, a_methodology = synth_methodology,
               a_implications = synth_implications, a_date_analyzed = n\<rparr>"
  let ?db2 = "db1\<lparr>paper_analysis := paper_analysis db1 @ [?row], paper_analysis_seq := ?i\<rparr>"
  have b: "sql_bind (PInt pid) = Inr (PInt pid)"
    using assms(3) by (simp add: bindable_def)
  have g: "get_paper_analysis db1 pid = Inr None"
    using assms(5) b by (simp add: get_paper_analysis_def)
  have sv: "save_paper_analysis db1 n pid a = (Inr True, ?db2)"
    using b assms(4)
    by (simp add: save_paper_analysis_def a dict_getd_def Let_def analysis_violation_def
        sql_bind_def sql_text_def)
  have 1: "analyze_paper db t n p = (a, p1, ?db2)"
    using assms(1,2,6) g sv by (simp add: analyze_paper_def analyze_paper_body_def)
  have 2: "analysis_dict ?row =
      [(''id'', PInt (a_id ?row)), (''paper_id'', PInt pid)] @ a @ [(''date_analyzed'', PStr n)]"
    by (simp add: analysis_dict_def a)
  have 3: "get_paper_analysis ?db2 pid = Inr (Some (analysis_dict ?row))"
    using b assms(5) by (simp add: get_paper_analysis_def find_snoc)
  show ?thesis
    using 1 2 3 by (intro exI [of _ ?row]) simp
qed


lemma add_paper_again:
  assumes "db_inv db" and "storable_paper q" and "external_key q = Inr k"
    and "row \<in> set (papers db)" and "p_paper_id row = sql_text k"
  shows "\<exists>q1. add_paper db t q = (Inr (Some (p_id row)), q1, db)"
proof -
  obtain pid2 d2 dbb k2 row2 where ap2: "add_paper db t q = (Inr (Some pid2), d2, dbb)"
    and k2: "external_key q = Inr k2"
    and row2: "row2 \<in> set (papers dbb)" "p_id row2 = pid2" "p_paper_id row2 = sql_text k2"
    and same: "sql_text k2 \<in> set (map p_paper_id (papers db)) \<longrightarrow> dbb = db"
    using add_paper_storable [OF assms(1,2), of t] by blast
  have kk: "k2 = k"
    using k2 assms(3) by simp
  have "sql_text k \<in> set (map p_paper_id (papers db))"
    using assms(4,5) by force
  then have dbb: "dbb = db"
    using same kk by simp
  have "row2 = row"
  proof (rule distinct_map_eq [of p_paper_id "papers db"])
    show "distinct (map p_paper_id (papers db))"
      using assms(1) by (simp add: db_inv_def)
    show "row2 \<in> set (papers db)" using row2(1) dbb by simp
    show "row \<in> set (papers db)" using assms(4) .
    show "p_paper_id row2 = p_paper_id row" using row2(3) assms(5) kk by simp
  qed
  then show ?thesis
    using ap2 dbb row2(2) by simp
qed

lemma synthesize_prepared:
  assumes "prepare_paper t p = Inr d" and "dict_get p ''title'' = Some (PStr ttl)"
    and "dict_get p ''authors'' = Some au" and "text_or_list au"
  shows "\<exists>a. synthesize d = Inr a"
proof -
  note f = prepare_paper_fields [OF assms(1)]
  have t: "dict_item d ''title'' = Inr (PStr ttl)"
    using f(3) assms(2) by (simp add: dict_item_def dict_get_def)
  obtain s where "dumped au = PStr s"
    using assms(4) by (cases au) (auto simp: text_or_list_def dumped_def simp del: json_dumps.simps)
  then have a: "dict_getd d ''authors'' (PList []) = PStr s"
    using f(2) assms(3) by (simp add: dict_getd_def dict_get_def)
  show ?thesis
    by (simp add: synthesize_def t a slice_to_def py_join_def py_lower_def)
qed

text \<open>The first and the second call for a paper the store holds no analysis of.\<close>

lemma analyze_paper_first_second:
  assumes "db_inv db" and "storable_paper p"
    and "dict_get p ''title'' = Some (PStr ttl)"
    and "dict_get p ''authors'' = Some au" and "text_or_list au"
    and "fst (add_paper db t1 p) = Inr (Some pid)" and "bindable (PInt pid)"
    and "analysis_count db pid = 0"
    and "storable_paper q" and "external_key q = external_key p"
  shows "\<exists>a p1 db1 q1 i.
           analyze_paper db t1 n1 p = (a, p1, db1) \<and>
           synthesize p1 = Inr a \<and>
           analyze_paper db1 t2 n2 q =
             ([(''id'', PInt i), (''paper_id'', PInt pid)] @ a @ [(''date_analyzed'', PStr n1)],
              q1, db1) \<and>
           get_paper_analysis db1 pid =
             Inr (Some ([(''id'', PInt i), (''paper_id'', PInt pid)] @ a @
                        [(''date_analyzed'', PStr n1)])) \<and>
           analysis_count db1 pid = 1 \<and>
           storable_paper p1 \<and> external_key p1 = external_key p"
proof -
  obtain pid' d dba k row where ap: "add_paper db t1 p = (Inr (Some pid'), d, dba)"
    and pos: "0 < pid'" and d: "prepare_paper t1 p = Inr d" and k: "external_key p = Inr k"
    and row: "row \<in> set (papers dba)" "p_id row = pid'" "p_paper_id row = sql_text k"
    using add_paper_storable [OF assms(1,2), of t1] by blast
  have pp: "pid' = pid"
    using ap assms(6) by simp
  have dba: "dba = snd (snd (add_paper db t1 p))"
    using ap by simp
  have inva: "db_inv dba"
    using add_paper_inv [OF assms(1), of t1 p] dba by simp
  have pa: "paper_analysis dba = paper_analysis db"
    using add_paper_analysis_rows [of db t1 p] dba by simp
  have "filter (\<lambda>r. a_paper_id r = pid) (paper_analysis dba) = []"
    using assms(8) pa by (simp add: analysis_count_def)
  then have nf: "find (\<lambda>r. a_paper_id r = pid) (paper_analysis dba) = None"
    by (simp add: find_None_iff filter_empty_conv)
  obtain a where a: "synthesize d = Inr a"
    using synthesize_prepared [OF d assms(3,4,5)] by blast
  have pin: "pid \<in> set (map p_id (papers dba))"
    using row pp by force
  obtain arow where
    f1: "analyze_paper db t1 n1 p =
           (a, d, dba\<lparr>paper_analysis := paper_analysis dba @ [arow],
                      paper_analysis_seq := a_id arow\<rparr>)"
    and f2: "analysis_dict arow =
           [(''id'', PInt (a_id arow)), (''paper_id'', PInt pid)] @ a @
           [(''date_analyzed'', PStr n1)]"
    and f3: "get_paper_analysis (dba\<lparr>paper_analysis := paper_analysis dba @ [arow],
                      paper_analysis_seq := a_id arow\<rparr>) pid = Inr (Some (analysis_dict arow))"
    using analyze_paper_fresh [OF ap [unfolded pp] _ assms(7) pin nf a, of n1] pos pp by auto
  let ?db1 = "dba\<lparr>paper_analysis := paper_analysis dba @ [arow], paper_analysis_seq := a_id arow\<rparr>"
  have inv1: "db_inv ?db1"
    using inva by (simp add: db_inv_def)
  have row1: "row \<in> set (papers ?db1)"
    using row(1) by simp
  have kq: "external_key q = Inr k"
    using assms(10) k by simp
  obtain q1 where aq: "add_paper ?db1 t2 q = (Inr (Some pid), q1, ?db1)"
    using add_paper_again [OF inv1 assms(9) kq row1 row(3), of t2] row(2) pp by auto
  have s2: "analyze_paper ?db1 t2 n2 q = (analysis_dict arow, q1, ?db1)"
    using analyze_paper_stored [OF aq _ f3, of n2] pos pp by simp
  have ap_id: "a_paper_id arow = pid"
    using f2 by (simp add: analysis_dict_def)
  have cnt: "analysis_count ?db1 pid = 1"
    using assms(8) pa ap_id by (simp add: analysis_count_def)
  have st: "storable_paper d" "external_key d = external_key p"
    using prepared_storable [OF assms(2) d] prepared_external_key [OF d] by simp_all
  show ?thesis
    using f1 a s2 f3 cnt st unfolding f2
    by (intro exI [of _ a] exI [of _ d] exI [of _ ?db1] exI [of _ q1] exI [of _ "a_id arow"])
       (simp del: json_dumps.simps)
qed


text \<open>
  C7 (amended). In a consistent store that holds no analysis of the paper, for a record
  the store accepts whose title is a string and whose authors are a list or a string:
  the first \<open>analyze_paper\<close> returns the synthesized document \<open>a\<close>, of the four keys
  \<open>summary\<close>, \<open>key_findings\<close>, \<open>methodology\<close>, \<open>implications\<close>, and stores it; a second
  call, with a record \<open>q\<close> of the same external key (the record as the first call left
  it is one), returns the stored row \<open>b\<close> as \<open>get_paper_analysis\<close> gives it and leaves
  the store as it is. \<open>b\<close> has the seven keys of the row: it agrees with \<open>a\<close> on the
  four keys of \<open>a\<close>, and is not \<open>a\<close>.
\<close>

theorem analyze_paper_twice:
  assumes "db_inv db" and "storable_paper p"
    and "dict_get p ''title'' = Some (PStr ttl)"
    and "dict_get p ''authors'' = Some au" and "text_or_list au"
    and "fst (add_paper db t1 p) = Inr (Some pid)" and "bindable (PInt pid)"
    and "analysis_count db pid = 0"
    and "storable_paper q" and "external_key q = external_key p"
  shows "\<exists>a b p1 db1 q1.
           analyze_paper db t1 n1 p = (a, p1, db1) \<and>
           analyze_paper db1 t2 n2 q = (b, q1, db1) \<and>
           get_paper_analysis db1 pid = Inr (Some b) \<and>
           dict_keys a = [''summary'', ''key_findings'', ''methodology'', ''implications''] \<and>
           dict_keys b = [''id'', ''paper_id'', ''summary'', ''key_findings'', ''methodology'',
                          ''implications'', ''date_analyzed''] \<and>
           dict_get b ''summary'' = dict_get a ''summary'' \<and>
           dict_get b ''key_findings'' = dict_get a ''key_findings'' \<and>
           dict_get b ''methodology'' = dict_get a ''methodology'' \<and>
           dict_get b ''implications'' = dict_get a ''implications'' \<and>
           dict_get b ''paper_id'' = Some (PInt pid) \<and>
           dict_get b ''date_analyzed'' = Some (PStr n1) \<and>
           storable_paper p1 \<and> external_key p1 = external_key p"
proof -
  obtain a p1 db1 q1 i where
    r: "analyze_paper db t1 n1 p = (a, p1, db1)"
      "synthesize p1 = Inr a"
      "analyze_paper db1 t2 n2 q =
         ([(''id'', PInt i), (''paper_id'', PInt pid)] @ a @ [(''date_analyzed'', PStr n1)],
          q1, db1)"
      "get_paper_analysis db1 pid =
         Inr (Some ([(''id'', PInt i), (''paper_id'', PInt pid)] @ a @
                    [(''date_analyzed'', PStr n1)]))"
      "storable_paper p1" "external_key p1 = external_key p"
    using analyze_paper_first_second [OF assms, of n1 t2 n2] by blast
  obtain s where a: "a = [(''summary'', PStr s), (''key_findings'', synth_key_findings),
                  (''methodology'', synth_methodology), (''implications'', synth_implications)]"
    using synthesize_Inr [OF r(2)] by blast
  let ?b = "[(''id'', PInt i), (''paper_id'', PInt pid)] @ a @ [(''date_analyzed'', PStr n1)]"
  have "dict_keys a = [''summary'', ''key_findings'', ''methodology'', ''implications'']"
    "dict_keys ?b = [''id'', ''paper_id'', ''summary'', ''key_findings'', ''methodology'',
                          ''implications'', ''date_analyzed'']"
    "dict_get ?b ''summary'' = dict_get a ''summary''"
    "dict_get ?b ''key_findings'' = dict_get a ''key_findings''"
    "dict_get ?b ''methodology'' = dict_get a ''methodology''"
    "dict_get ?b ''implications'' = dict_get a ''implications''"
    "dict_get ?b ''paper_id'' = Some (PInt pid)"
    "dict_get ?b ''date_analyzed'' = Some (PStr n1)"
    by (simp_all add: a dict_keys_def dict_get_def)
  then show ?thesis
    using r(1,3,4,5,6) by (intro exI [of _ a] exI [of _ ?b] exI [of _ p1] exI [of _ db1] exI [of _ q1]) simp
qed

lemma longer_differs: "length xs \<noteq> length ys \<Longrightarrow> xs \<noteq> ys"
  by auto

lemma empty_database_add:
  "fst (add_paper empty_database now example_paper) = Inr (Some 1)"
  by (simp add: example_paper_def add_paper_def prepare_paper_def
      set_paper_id_def dict_keys_def dict_item_def slice_to_def dump_authors_def
      dict_get_def core_fields_def dict_pop_def insert_paper_def paper_params_def
      sql_bind_def paper_param_list_def papers_violation_def empty_database_def
      next_rowid_def dict_getd_def Let_def py_str_def stored_paper_def)

lemma example_paper_fields:
  "dict_get example_paper ''title'' = Some (PStr ''Attention Is All You Need'')"
  "dict_get example_paper ''authors'' = Some (PList [PStr ''Ashish Vaswani'', PStr ''Noam Shazeer''])"
  "text_or_list (PList [PStr ''Ashish Vaswani'', PStr ''Noam Shazeer''])"
  by (simp_all add: example_paper_def dict_get_def text_or_list_def)

lemma empty_database_analysis: "analysis_count empty_database i = 0"
  by (simp add: analysis_count_def empty_database_def)

text \<open>The example paper, analysed twice from the empty store.\<close>

theorem analyze_paper_twice_witness:
  "\<exists>a b p1 db1 q1.
     analyze_paper empty_database ''2024-01-01 10:00:00'' ''2024-01-01 10:00:01'' example_paper =
       (a, p1, db1) \<and>
     analyze_paper db1 ''2024-01-02 10:00:00'' ''2024-01-02 10:00:01'' example_paper =
       (b, q1, db1) \<and>
     get_paper_analysis db1 1 = Inr (Some b) \<and>
     dict_get b ''summary'' = dict_get a ''summary'' \<and>
     dict_get b ''date_analyzed'' = Some (PStr ''2024-01-01 10:00:01'')"
  using analyze_paper_twice [OF empty_database_inv example_paper_storable example_paper_fields
      empty_database_add bindable_small(1) empty_database_analysis example_paper_storable refl,
      of "''2024-01-01 10:00:00''" "''2024-01-01 10:00:01''" "''2024-01-02 10:00:00''"
         "''2024-01-02 10:00:01''"]
  by blast

text \<open>
  C7 (the claim as it stands fails). From the empty store, the second \<open>analyze_paper\<close>
  of the example paper, on the record as the first call left it, returns a document
  other than the first: the first has four keys, the second the seven of the stored
  row; and \<open>get_paper_analysis\<close> gives the second document, not the first.
\<close>

theorem analyze_paper_second_differs:
  "fst (analyze_paper
         (snd (snd (analyze_paper empty_database ''2024-01-01 10:00:00''
            ''2024-01-01 10:00:01'' example_paper)))
         ''2024-01-02 10:00:00'' ''2024-01-02 10:00:01''
         (fst (snd (analyze_paper empty_database ''2024-01-01 10:00:00''
            ''2024-01-01 10:00:01'' example_paper)))) \<noteq>
   fst (analyze_paper empty_database ''2024-01-01 10:00:00'' ''2024-01-01 10:00:01''
         example_paper) \<and>
   get_paper_analysis
     (snd (snd (analyze_paper empty_database ''2024-01-01 10:00:00''
        ''2024-01-01 10:00:01'' example_paper))) 1 \<noteq>
   Inr (Some (fst (analyze_paper empty_database ''2024-01-01 10:00:00''
        ''2024-01-01 10:00:01'' example_paper)))"
proof -
  let ?r1 = "analyze_paper empty_database ''2024-01-01 10:00:00'' ''2024-01-01 10:00:01''
     example_paper"
  obtain a p1 db1 where r1: "?r1 = (a, p1, db1)"
    by (metis prod.collapse)
  obtain a' p1' db1' q1' i where
    f: "?r1 = (a', p1', db1')"
      "get_paper_analysis db1' 1 =
         Inr (Some ([(''id'', PInt i), (''paper_id'', PInt 1)] @ a' @
                    [(''date_analyzed'', PStr ''2024-01-01 10:00:01'')]))"
      "storable_paper p1'" "external_key p1' = external_key example_paper"
    using analyze_paper_first_second [OF empty_database_inv example_paper_storable
      example_paper_fields empty_database_add bindable_small(1) empty_database_analysis
      example_paper_storable refl,
      of "''2024-01-01 10:00:00''" "''2024-01-01 10:00:01''" "''2024-01-02 10:00:00''"
         "''2024-01-02 10:00:01''"]
    by blast
  have eq: "a' = a" "p1' = p1" "db1' = db1"
    using r1 f(1) by simp_all
  obtain a2 p2 db2 q2 j where
    s: "?r1 = (a2, p2, db2)"
      "analyze_paper db2 ''2024-01-02 10:00:00'' ''2024-01-02 10:00:01'' p1 =
         ([(''id'', PInt j), (''paper_id'', PInt 1)] @ a2 @
          [(''date_analyzed'', PStr ''2024-01-01 10:00:01'')], q2, db2)"
    using analyze_paper_first_second [OF empty_database_inv example_paper_storable
      example_paper_fields empty_database_add bindable_small(1) empty_database_analysis
      f(3) [unfolded eq] f(4) [unfolded eq],
      of "''2024-01-01 10:00:00''" "''2024-01-01 10:00:01''" "''2024-01-02 10:00:00''"
         "''2024-01-02 10:00:01''"]
    by blast
  have eq2: "a2 = a" "db2 = db1"
    using r1 s(1) by simp_all
  have n1: "[(''id'', PInt j), (''paper_id'', PInt 1)] @ a @
      [(''date_analyzed'', PStr ''2024-01-01 10:00:01'')] \<noteq> a"
    by (rule longer_differs) simp
  have n2: "[(''id'', PInt i), (''paper_id'', PInt 1)] @ a @
      [(''date_analyzed'', PStr ''2024-01-01 10:00:01'')] \<noteq> a"
    by (rule longer_differs) simp
  show ?thesis
    using r1 s(2) f(2) n1 n2 unfolding eq eq2 by simp
qed


text \<open>
  C8. \<open>analyze_paper\<close> returns a document on every path. When \<open>add_paper\<close> gives no
  id (\<open>None\<close> or \<open>0\<close>) the document is the error sentinel. When \<open>add_paper\<close>,
  \<open>get_paper_analysis\<close>, the synthesis or \<open>save_paper_analysis\<close> raises, the document is
  the fixed degraded one: no key findings, \<open>Not available\<close> as the description of the
  methodology and of the implications. Otherwise it is the stored analysis, or the
  synthesized one.
\<close>

theorem analyze_paper_never_raises:
  "((\<exists>e. fst (add_paper db t1 p) = Inl e) \<longrightarrow>
      fst (analyze_paper db t1 t2 p) = degraded_analysis) \<and>
   (fst (add_paper db t1 p) = Inr None \<or> fst (add_paper db t1 p) = Inr (Some 0) \<longrightarrow>
      fst (analyze_paper db t1 t2 p) = error_analysis) \<and>
   (\<forall>pid. fst (add_paper db t1 p) = Inr (Some pid) \<and> pid \<noteq> 0 \<longrightarrow>
      ((\<exists>e. get_paper_analysis (snd (snd (add_paper db t1 p))) pid = Inl e) \<longrightarrow>
         fst (analyze_paper db t1 t2 p) = degraded_analysis) \<and>
      (\<forall>b. get_paper_analysis (snd (snd (add_paper db t1 p))) pid = Inr (Some b) \<longrightarrow>
         fst (analyze_paper db t1 t2 p) = b) \<and>
      (get_paper_analysis (snd (snd (add_paper db t1 p))) pid = Inr None \<longrightarrow>
         ((\<exists>e. synthesize (fst (snd (add_paper db t1 p))) = Inl e) \<longrightarrow>
            fst (analyze_paper db t1 t2 p) = degraded_analysis) \<and>
         (\<forall>a. synthesize (fst (snd (add_paper db t1 p))) = Inr a \<longrightarrow>
            ((\<exists>e. fst (save_paper_analysis (snd (snd (add_paper db t1 p))) t2 pid a) = Inl e) \<longrightarrow>
               fst (analyze_paper db t1 t2 p) = degraded_analysis) \<and>
            ((\<exists>ok. fst (save_paper_analysis (snd (snd (add_paper db t1 p))) t2 pid a) = Inr ok) \<longrightarrow>
               fst (analyze_paper db t1 t2 p) = a)))) \<and>
   dict_get error_analysis ''error'' = Some (PStr ''Failed to process paper for analysis'') \<and>
   dict_get degraded_analysis ''key_findings'' = Some (PList []) \<and>
   dict_get degraded_analysis ''methodology'' =
     Some (PDict [(''description'', PStr ''Not available''), (''steps'', PList [])]) \<and>
   dict_get degraded_analysis ''implications'' =
     Some (PDict [(''description'', PStr ''Not available''), (''research_gaps'', PList []),
                  (''future_directions'', PList [])])"
proof -
  obtain r p1 db1 where a: "add_paper db t1 p = (r, p1, db1)"
    by (metis prod.collapse)
  have 1: "(\<exists>e. r = Inl e) \<longrightarrow> fst (analyze_paper db t1 t2 p) = degraded_analysis"
    using a by (auto simp: analyze_paper_def analyze_paper_body_def)
  have 2: "r = Inr None \<or> r = Inr (Some 0) \<longrightarrow> fst (analyze_paper db t1 t2 p) = error_analysis"
    using a by (auto simp: analyze_paper_def analyze_paper_body_def)
  have 3: "fst (analyze_paper db t1 t2 p) = degraded_analysis"
    if "r = Inr (Some pid)" "pid \<noteq> 0" "get_paper_analysis db1 pid = Inl e" for pid e
    using a that by (simp add: analyze_paper_def analyze_paper_body_def)
  have 4: "fst (analyze_paper db t1 t2 p) = b"
    if "r = Inr (Some pid)" "pid \<noteq> 0" "get_paper_analysis db1 pid = Inr (Some b)" for pid b
    using analyze_paper_stored [OF a [unfolded that(1)] that(2,3), of t2] by simp
  have 5: "fst (analyze_paper db t1 t2 p) = degraded_analysis"
    if "r = Inr (Some pid)" "pid \<noteq> 0" "get_paper_analysis db1 pid = Inr None"
      "synthesize p1 = Inl e" for pid e
    using a that by (simp add: analyze_paper_def analyze_paper_body_def)
  have 6: "fst (analyze_paper db t1 t2 p) = degraded_analysis"
    if h: "r = Inr (Some pid)" "pid \<noteq> 0" "get_paper_analysis db1 pid = Inr None"
      "synthesize p1 = Inr x" "fst (save_paper_analysis db1 t2 pid x) = Inl e" for pid x e
  proof -
    obtain db2 where "save_paper_analysis db1 t2 pid x = (Inl e, db2)"
      using h(5) by (metis prod.collapse)
    then show ?thesis
      using a h(1-4) by (simp add: analyze_paper_def analyze_paper_body_def)
  qed
  have 7: "fst (analyze_paper db t1 t2 p) = x"
    if h: "r = Inr (Some pid)" "pid \<noteq> 0" "get_paper_analysis db1 pid = Inr None"
      "synthesize p1 = Inr x" "fst (save_paper_analysis db1 t2 pid x) = Inr ok" for pid x ok
  proof -
    obtain db2 where "save_paper_analysis db1 t2 pid x = (Inr ok, db2)"
      using h(5) by (metis prod.collapse)
    then show ?thesis
      using a h(1-4) by (simp add: analyze_paper_def analyze_paper_body_def)
  qed
  have 8: "dict_get error_analysis ''error'' = Some (PStr ''Failed to process paper for analysis'')"
    "dict_get degraded_analysis ''key_findings'' = Some (PList [])"
    "dict_get degraded_analysis ''methodology'' =
       Some (PDict [(''description'', PStr ''Not available''), (''steps'', PList [])])"
    "dict_get degraded_analysis ''implications'' =
       Some (PDict [(''description'', PStr ''Not available''), (''research_gaps'', PList []),
                    (''future_directions'', PList [])])"
    by (simp_all add: error_analysis_def degraded_analysis_def dict_get_def)
  show ?thesis
    unfolding a fst_conv snd_conv
    using 1 2 3 4 5 6 7 8 by blast
qed

lemma add_paper_untitled:
  "fst (add_paper empty_database now
          [(''paper_id'', PStr ''k1''), (''title'', PNone), (''authors'', PStr ''A'')]) = Inr None"
  by (simp add: add_paper_def prepare_paper_def
      set_paper_id_def dict_keys_def dict_item_def dump_authors_def
      dict_get_def core_fields_def dict_pop_def insert_paper_def paper_params_def
      sql_bind_def paper_param_list_def papers_violation_def empty_database_def
      select_paper_id_def sql_text_def dict_getd_def Let_def)

lemma add_paper_no_fields: "fst (add_paper db now []) = Inl KeyError"
  by (simp add: add_paper_def prepare_paper_def set_paper_id_def dict_keys_def dict_item_def)

text \<open>
  A record with a key and the title \<open>None\<close> meets the \<open>NOT NULL\<close> constraint, so
  \<open>add_paper\<close> gives \<open>None\<close>; the empty record has no \<open>source\<close>, so \<open>add_paper\<close> raises
  \<open>KeyError\<close>.
\<close>

theorem analyze_paper_never_raises_witness:
  "fst (analyze_paper empty_database ''2024-01-01 10:00:00'' ''2024-01-01 10:00:01''
          [(''paper_id'', PStr ''k1''), (''title'', PNone), (''authors'', PStr ''A'')]) =
     error_analysis \<and>
   fst (analyze_paper empty_database ''2024-01-01 10:00:00'' ''2024-01-01 10:00:01'' []) =
     degraded_analysis"
  using analyze_paper_never_raises [of empty_database "''2024-01-01 10:00:00''"
      "[(''paper_id'', PStr ''k1''), (''title'', PNone), (''authors'', PStr ''A'')]"
      "''2024-01-01 10:00:01''"]
    analyze_paper_never_raises [of empty_database "''2024-01-01 10:00:00''" "[]"
      "''2024-01-01 10:00:01''"]
    add_paper_untitled [of "''2024-01-01 10:00:00''"]
    add_paper_no_fields [of empty_database "''2024-01-01 10:00:00''"]
  by simp

subsection \<open>The chat responder\<close>

lemma findings_query:
  "contains (lower ''What are the key findings?'') ''findings''"
  "\<not> contains (lower ''What are the key findings?'') ''summary''"
  "\<not> contains (lower ''What are the key findings?'') ''summarize''"
  by code_simp+




lemma log_chat_unregistered:
  assumes "u \<noteq> 0" and "u \<notin> set (map u_id (users db))"
  shows "\<exists>e. log_chat db nh ctx q (Some u) = (Inl e, db)"
  using assms
  by (auto simp: log_chat_def add_history_item_def split: list.splits sum.splits)



text \<open>The body of the \<open>try\<close> for a query of the findings branch.\<close>

lemma generate_response_body_findings:
  assumes "\<not> contains (lower q) ''summary''" and "\<not> contains (lower q) ''summarize''"
    and "contains (lower q) ''findings'' \<or> contains (lower q) ''results'' \<or>
         contains (lower q) ''discover''"
    and "log_chat (chat_db st) nh (research_context st) q uid = (r, db1)"
  shows "fst (generate_response_body st nu nh nr rnd q uid) =
           (case r of Inl e \<Rightarrow> Inl e | Inr ok \<Rightarrow> findings_response (research_context st))"
  using assms by (auto simp: generate_response_body_def Let_def split: sum.splits)

lemma generate_response_fst:
  "fst (generate_response st nu nh nr rnd q uid) =
     (case fst (generate_response_body st nu nh nr rnd q uid) of
        Inl e \<Rightarrow> apology | Inr response \<Rightarrow> response)"
  by (simp add: generate_response_def split: prod.splits sum.splits)

lemma generate_response_snd:
  "snd (generate_response st nu nh nr rnd q uid) =
     snd (generate_response_body st nu nh nr rnd q uid)"
  by (simp add: generate_response_def split: prod.splits sum.splits)

text \<open>The transcript after the body of the \<open>try\<close>.\<close>

lemma generate_response_body_history:
  "chat_history (snd (generate_response_body st nu nh nr rnd q uid)) =
     chat_history st @ [turn ''user'' q nu] @
     (case fst (generate_response_body st nu nh nr rnd q uid) of
        Inl e \<Rightarrow> []
      | Inr response \<Rightarrow>
          if contains (lower q) ''summary'' \<or> contains (lower q) ''summarize''
          then [turn ''assistant'' response nr] else [])"
proof -
  obtain r db1 where l: "log_chat (chat_db st) nh (research_context st) q uid = (r, db1)"
    by (metis prod.collapse)
  show ?thesis
  proof (cases r)
    case (Inl e)
    then show ?thesis
      using l by (simp add: generate_response_body_def Let_def)
  next
    case (Inr ok)
    show ?thesis
    proof (cases "contains (lower q) ''summary'' \<or> contains (lower q) ''summarize''")
      case True
      then show ?thesis
        using l Inr by (auto simp: generate_response_body_def Let_def split: sum.splits)
    next
      case False
      then show ?thesis
        using l Inr by (simp add: generate_response_body_def Let_def split: sum.splits)
    qed
  qed
qed


text \<open>
  C1 (the code departs from the claim). The claim: every call of \<open>generate_response\<close>
  appends a user turn and an assistant turn to the transcript, the apology included
  when an exception is caught. The code: the user turn is appended at line 63 on every
  call; the assistant turn is appended at lines 102-106 only, in the summary branch;
  the other five branches return their text at once and the \<open>except\<close> returns the
  apology at once. So the transcript grows by the user turn alone unless the query
  asks for a summary and nothing raises.
\<close>

theorem generate_response_transcript:
  "chat_history (snd (generate_response st nu nh nr rnd q uid)) =
     chat_history st @ [turn ''user'' q nu] @
     (if (contains (lower q) ''summary'' \<or> contains (lower q) ''summarize'') \<and>
         fst (generate_response_body st nu nh nr rnd q uid) =
           Inr (fst (generate_response st nu nh nr rnd q uid))
      then [turn ''assistant'' (fst (generate_response st nu nh nr rnd q uid)) nr] else []) \<and>
   ((\<exists>e. fst (generate_response_body st nu nh nr rnd q uid) = Inl e) \<longrightarrow>
      fst (generate_response st nu nh nr rnd q uid) = apology \<and>
      chat_history (snd (generate_response st nu nh nr rnd q uid)) =
        chat_history st @ [turn ''user'' q nu])"
proof (cases "fst (generate_response_body st nu nh nr rnd q uid)")
  case (Inl e)
  then show ?thesis
    using generate_response_body_history [of st nu nh nr rnd q uid]
    by (simp add: generate_response_fst generate_response_snd)
next
  case (Inr response)
  then show ?thesis
    using generate_response_body_history [of st nu nh nr rnd q uid]
    by (simp add: generate_response_fst generate_response_snd)
qed

text \<open>
  The question for the key findings, in the example session: asked without a user it is
  answered from the findings branch, asked for the unregistered user 7 it is answered
  with the apology; the transcript holds the user turn alone both times.
\<close>

theorem generate_response_transcript_witness:
  "chat_history (snd (generate_response example_session ''2024-01-02 09:00:00''
       ''2024-01-02 09:00:01'' ''2024-01-02 09:00:02'' 0 ''What are the key findings?'' None)) =
     [turn ''user'' ''What are the key findings?'' ''2024-01-02 09:00:00''] \<and>
   fst (generate_response example_session ''2024-01-02 09:00:00''
       ''2024-01-02 09:00:01'' ''2024-01-02 09:00:02'' 0 ''What are the key findings?''
       (Some 7)) = apology \<and>
   chat_history (snd (generate_response example_session ''2024-01-02 09:00:00''
       ''2024-01-02 09:00:01'' ''2024-01-02 09:00:02'' 0 ''What are the key findings?''
       (Some 7))) =
     [turn ''user'' ''What are the key findings?'' ''2024-01-02 09:00:00'']"
proof -
  have u: "(7::int) \<noteq> 0" "(7::int) \<notin> set (map u_id (users (chat_db example_session)))"
    by (simp_all add: example_session_def registered_store_users)
  obtain e where l: "log_chat (chat_db example_session) ''2024-01-02 09:00:01''
      (research_context example_session) ''What are the key findings?'' (Some 7) =
      (Inl e, chat_db example_session)"
    using log_chat_unregistered [OF u] by blast
  have b: "fst (generate_response_body example_session ''2024-01-02 09:00:00''
       ''2024-01-02 09:00:01'' ''2024-01-02 09:00:02'' 0 ''What are the key findings?''
       (Some 7)) = Inl e"
    using generate_response_body_findings [OF findings_query(2,3) disjI1 [OF findings_query(1)] l]
    by simp
  have h: "chat_history example_session = []"
    by (simp add: example_session_def)
  show ?thesis
    using generate_response_transcript [of example_session "''2024-01-02 09:00:00''"
        "''2024-01-02 09:00:01''" "''2024-01-02 09:00:02''" 0 "''What are the key findings?''"
        None]
      generate_response_transcript [of example_session "''2024-01-02 09:00:00''"
        "''2024-01-02 09:00:01''" "''2024-01-02 09:00:02''" 0 "''What are the key findings?''"
        "Some 7"]
      b h findings_query(2,3)
    by simp
qed





end
